theory Spec2Isabelle
  imports Main "HOL-Library.Word" "HOL-Library.Sublist"
begin

unbundle bit_operations_syntax

section \<open>JavaScript values, exceptions and observable events\<close>

text \<open>
  A JavaScript string is a sequence of UTF-16 code units; a \<open>Uint8Array\<close> is a sequence
  of octets. Numbers that cross the foreign boundary (offsets and byte lengths) are integers.
\<close>

type_synonym jsstring = "16 word list"
type_synonym bytes = "8 word list"

text \<open>An ASCII string literal of the source, as UTF-16 code units.\<close>

definition js :: "string \<Rightarrow> jsstring" where
  "js s = map (\<lambda>c. word_of_nat (of_char c)) s"

text \<open>A thrown value; \<open>message\<close> is its \<open>.message\<close> property.\<close>

datatype exn = Exn (message: jsstring)

text \<open>
  JSON-like values (\<open>params: any\<close>, \<open>Context\<close>, \<open>SimpleResponse\<close>). Objects keep their
  properties in insertion order.
\<close>

datatype "value" =
    Undefined
  | Null
  | Bool bool
  | Num int
  | Str jsstring
  | Arr "value list"
  | Obj "(jsstring \<times> value) list"

text \<open>
  The foreign primitives declared in \<open>global.d.ts\<close> (\<open>__wasm\<close>, \<open>__host\<close> and the Asyncify
  ABI), as the calls a run issues. A trace records every call with what came back.
\<close>

datatype call =
    Alloc int
  | ClearResponseBuffer
  | Dealloc int int
  | GetResponseLen
  | GetResponsePtr
  | ReadString int int
  | WriteString int jsstring
  | HostCall int int int int int int
  | HostCast int int int int int int
  | GetContext int
  | GetContextSize
  | GetExecutionResult int
  | GetExecutionResultSize
  | AsyncifyGetState
  | AsyncifyStopRewind

datatype reply = Threw exn | Done | Number int | Text jsstring

datatype event =
    Foreign call reply
  | ConsoleError jsstring int int exn
  | ConsoleWarn jsstring

section \<open>Computations: state, exceptions and a trace\<close>

text \<open>
  A computation runs from a state and ends by returning (\<open>Inr\<close>) or throwing (\<open>Inl\<close>);
  it yields the events it emitted, in order, and the state it left.
\<close>

type_synonym ('s, 'a) js = "'s \<Rightarrow> (exn + 'a) \<times> event list \<times> 's"

definition outcome_of :: "(exn + 'a) \<times> event list \<times> 's \<Rightarrow> exn + 'a" where
  "outcome_of t = fst t"

definition events_of :: "(exn + 'a) \<times> event list \<times> 's \<Rightarrow> event list" where
  "events_of t = fst (snd t)"

definition state_of :: "(exn + 'a) \<times> event list \<times> 's \<Rightarrow> 's" where
  "state_of t = snd (snd t)"

definition ret :: "'a \<Rightarrow> ('s, 'a) js" where
  "ret x = (\<lambda>s. (Inr x, [], s))"

definition throw :: "exn \<Rightarrow> ('s, 'a) js" where
  "throw e = (\<lambda>s. (Inl e, [], s))"

definition bind :: "('s, 'a) js \<Rightarrow> ('a \<Rightarrow> ('s, 'b) js) \<Rightarrow> ('s, 'b) js" where
  "bind m f = (\<lambda>s. case m s of
      (Inl e, evs, s') \<Rightarrow> (Inl e, evs, s')
    | (Inr x, evs, s') \<Rightarrow> (case f x s' of (r, evs', s'') \<Rightarrow> (r, evs @ evs', s'')))"

text \<open>\<open>try { m } catch (e) { handler e }\<close>\<close>

definition try_catch :: "('s, 'a) js \<Rightarrow> (exn \<Rightarrow> ('s, 'a) js) \<Rightarrow> ('s, 'a) js" where
  "try_catch m handler = (\<lambda>s. case m s of
      (Inr x, evs, s') \<Rightarrow> (Inr x, evs, s')
    | (Inl e, evs, s') \<Rightarrow> (case handler e s' of (r, evs', s'') \<Rightarrow> (r, evs @ evs', s'')))"

text \<open>
  \<open>try { m } finally { fin }\<close>: the block \<open>fin\<close> runs however \<open>m\<close> ended; an exception
  thrown by \<open>fin\<close> replaces the outcome of \<open>m\<close>.
\<close>

definition try_finally :: "('s, 'a) js \<Rightarrow> ('s, unit) js \<Rightarrow> ('s, 'a) js" where
  "try_finally m fin = (\<lambda>s. case m s of
      (r, evs, s') \<Rightarrow> (case fin s' of
          (Inl e, evs', s'') \<Rightarrow> (Inl e, evs @ evs', s'')
        | (Inr u, evs', s'') \<Rightarrow> (r, evs @ evs', s'')))"

text \<open>A pure built-in that may throw.\<close>

definition pure_js :: "exn + 'a \<Rightarrow> ('s, 'a) js" where
  "pure_js r = (\<lambda>s. (r, [], s))"

definition console_error :: "jsstring \<Rightarrow> int \<Rightarrow> int \<Rightarrow> exn \<Rightarrow> ('s, unit) js" where
  "console_error label ptr len e = (\<lambda>s. (Inr (), [ConsoleError label ptr len e], s))"

section \<open>The foreign boundary\<close>

text \<open>
  The host and the substrate are not part of the repository: each primitive is a parameter,
  a transition of an abstract host state that returns or throws.
\<close>

record 'h foreign =
  wasm_alloc :: "int \<Rightarrow> 'h \<Rightarrow> (exn + int) \<times> 'h"
  wasm_clear_response_buffer :: "'h \<Rightarrow> (exn + unit) \<times> 'h"
  wasm_dealloc :: "int \<Rightarrow> int \<Rightarrow> 'h \<Rightarrow> (exn + unit) \<times> 'h"
  wasm_get_response_len :: "'h \<Rightarrow> (exn + int) \<times> 'h"
  wasm_get_response_ptr :: "'h \<Rightarrow> (exn + int) \<times> 'h"
  wasm_read_string :: "int \<Rightarrow> int \<Rightarrow> 'h \<Rightarrow> (exn + jsstring) \<times> 'h"
  wasm_write_string :: "int \<Rightarrow> jsstring \<Rightarrow> 'h \<Rightarrow> (exn + unit) \<times> 'h"
  host_call :: "int \<Rightarrow> int \<Rightarrow> int \<Rightarrow> int \<Rightarrow> int \<Rightarrow> int \<Rightarrow> 'h \<Rightarrow> (exn + unit) \<times> 'h"
  host_cast :: "int \<Rightarrow> int \<Rightarrow> int \<Rightarrow> int \<Rightarrow> int \<Rightarrow> int \<Rightarrow> 'h \<Rightarrow> (exn + unit) \<times> 'h"
  host_getContext :: "int \<Rightarrow> 'h \<Rightarrow> (exn + unit) \<times> 'h"
  host_getContextSize :: "'h \<Rightarrow> (exn + int) \<times> 'h"
  host_getExecutionResult :: "int \<Rightarrow> 'h \<Rightarrow> (exn + unit) \<times> 'h"
  host_getExecutionResultSize :: "'h \<Rightarrow> (exn + int) \<times> 'h"
  asyncify_get_state :: "'h \<Rightarrow> (exn + int) \<times> 'h"
  asyncify_stop_rewind :: "'h \<Rightarrow> (exn + unit) \<times> 'h"

fun reply_unit :: "exn + unit \<Rightarrow> reply" where
  "reply_unit (Inl e) = Threw e"
| "reply_unit (Inr u) = Done"

fun reply_number :: "exn + int \<Rightarrow> reply" where
  "reply_number (Inl e) = Threw e"
| "reply_number (Inr n) = Number n"

fun reply_text :: "exn + jsstring \<Rightarrow> reply" where
  "reply_text (Inl e) = Threw e"
| "reply_text (Inr t) = Text t"

definition foreign_unit :: "call \<Rightarrow> ('h \<Rightarrow> (exn + unit) \<times> 'h) \<Rightarrow> ('h, unit) js" where
  "foreign_unit c f = (\<lambda>h. case f h of (r, h') \<Rightarrow> (r, [Foreign c (reply_unit r)], h'))"

definition foreign_number :: "call \<Rightarrow> ('h \<Rightarrow> (exn + int) \<times> 'h) \<Rightarrow> ('h, int) js" where
  "foreign_number c f = (\<lambda>h. case f h of (r, h') \<Rightarrow> (r, [Foreign c (reply_number r)], h'))"

definition foreign_text :: "call \<Rightarrow> ('h \<Rightarrow> (exn + jsstring) \<times> 'h) \<Rightarrow> ('h, jsstring) js" where
  "foreign_text c f = (\<lambda>h. case f h of (r, h') \<Rightarrow> (r, [Foreign c (reply_text r)], h'))"

section \<open>The runtime's \<open>TextEncoder\<close> and \<open>TextDecoder\<close>\<close>

text \<open>
  \<open>internal/memory.ts\<close> builds its \<open>encoder\<close> and \<open>decoder\<close> when the module is loaded,
  and \<open>index.ts\<close> imports \<open>./host\<close> (hence \<open>internal/memory.ts\<close>) before
  \<open>./internal/global\<close>: the two objects are the runtime's own, never the polyfills of
  \<open>internal/polyfills.ts\<close>.

  \<open>TextEncoder.prototype.encode\<close> is fixed by the Encoding Standard: the string is read as
  a sequence of scalar values, a surrogate pair as one supplementary code point and an
  unpaired surrogate as U+FFFD, and every scalar value is written in UTF-8 (one to four
  octets, by the ranges of the Unicode Standard).
\<close>

definition high_surrogate :: "16 word \<Rightarrow> bool" where
  "high_surrogate u = (0xD800 \<le> u \<and> u \<le> 0xDBFF)"

definition low_surrogate :: "16 word \<Rightarrow> bool" where
  "low_surrogate u = (0xDC00 \<le> u \<and> u \<le> 0xDFFF)"

definition lone_unit :: "16 word \<Rightarrow> nat" where
  "lone_unit u = (if high_surrogate u \<or> low_surrogate u then 0xFFFD else unat u)"

fun scalar_values :: "jsstring \<Rightarrow> nat list" where
  "scalar_values [] = []"
| "scalar_values [u] = [lone_unit u]"
| "scalar_values (u # v # rest) =
     (if high_surrogate u \<and> low_surrogate v
      then (0x10000 + (unat u - 0xD800) * 0x400 + (unat v - 0xDC00)) # scalar_values rest
      else lone_unit u # scalar_values (v # rest))"

definition utf8_of_scalar :: "nat \<Rightarrow> bytes" where
  "utf8_of_scalar c =
     (if c < 0x80 then [word_of_nat c]
      else if c < 0x800 then
        [word_of_nat (0xC0 + c div 0x40), word_of_nat (0x80 + c mod 0x40)]
      else if c < 0x10000 then
        [word_of_nat (0xE0 + c div 0x1000), word_of_nat (0x80 + c div 0x40 mod 0x40),
         word_of_nat (0x80 + c mod 0x40)]
      else
        [word_of_nat (0xF0 + c div 0x40000), word_of_nat (0x80 + c div 0x1000 mod 0x40),
         word_of_nat (0x80 + c div 0x40 mod 0x40), word_of_nat (0x80 + c mod 0x40)])"

definition TextEncoder_encode :: "jsstring \<Rightarrow> bytes" where
  "TextEncoder_encode str = concat (map utf8_of_scalar (scalar_values str))"

section \<open>The globals the bridge calls\<close>

text \<open>
  \<open>TextDecoder.prototype.decode\<close> and \<open>JSON\<close> are the runtime's own and stay parameters:
  each returns or throws. \<open>ToString\<close> is the conversion \<open>new Error(message)\<close> applies to
  its argument.
\<close>

record builtins =
  TextDecoder_decode :: "bytes \<Rightarrow> exn + jsstring"
  JSON_stringify :: "value \<Rightarrow> exn + jsstring"
  JSON_parse :: "jsstring \<Rightarrow> exn + value"
  ToString :: "value \<Rightarrow> jsstring"

section \<open>The buffer arena adapter (\<open>internal/memory.ts\<close>)\<close>

definition allocate :: "'h foreign \<Rightarrow> int \<Rightarrow> ('h, int) js" where
  "allocate F sz = foreign_number (Alloc sz) (wasm_alloc F sz)"

definition deallocate :: "'h foreign \<Rightarrow> int \<Rightarrow> int \<Rightarrow> ('h, unit) js" where
  "deallocate F ptr sz = foreign_unit (Dealloc ptr sz) (wasm_dealloc F ptr sz)"

definition readBufferSlice :: "'h foreign \<Rightarrow> int \<Rightarrow> int \<Rightarrow> ('h, bytes) js" where
  "readBufferSlice F ptr len =
     (if len = 0 then ret []
      else try_catch
             (bind (foreign_text (ReadString ptr len) (wasm_read_string F ptr len))
                (\<lambda>str. ret (TextEncoder_encode str)))
             (\<lambda>error. bind (console_error (js ''Memory read failed'') ptr len error)
                (\<lambda>_. ret [])))"

definition readString :: "'h foreign \<Rightarrow> int \<Rightarrow> int \<Rightarrow> ('h, jsstring) js" where
  "readString F ptr len =
     (if len = 0 then ret []
      else try_catch
             (foreign_text (ReadString ptr len) (wasm_read_string F ptr len))
             (\<lambda>error. bind (console_error (js ''String read failed'') ptr len error)
                (\<lambda>_. ret [])))"

definition stringToPtr :: "'h foreign \<Rightarrow> jsstring \<Rightarrow> ('h, int \<times> int) js" where
  "stringToPtr F str =
     (if length str = 0 then bind (allocate F 0) (\<lambda>ptr. ret (ptr, 0))
      else let bytes = TextEncoder_encode str in
        bind (allocate F (int (length bytes))) (\<lambda>ptr.
        bind (foreign_unit (WriteString ptr str) (wasm_write_string F ptr str)) (\<lambda>_.
        ret (ptr, int (length bytes)))))"

section \<open>The call protocol and the regimes (\<open>host.ts\<close>)\<close>

text \<open>
  The \<open>let\<close> variables of \<open>execute\<close> that its \<open>finally\<close> blocks read: the three parameter
  handles, the staged response of the Asyncify path and the result buffer of the synchronous
  path. All start at 0.
\<close>

record locals =
  actionNamePtr :: int
  actionNameLen :: int
  paramsPtr :: int
  paramsLen :: int
  contextPtr :: int
  contextLen :: int
  responsePtr :: int
  responseLen :: int
  resultPtr :: int
  resultLen :: int

definition initial_locals :: locals where
  "initial_locals =
     \<lparr>actionNamePtr = 0, actionNameLen = 0, paramsPtr = 0, paramsLen = 0,
      contextPtr = 0, contextLen = 0, responsePtr = 0, responseLen = 0,
      resultPtr = 0, resultLen = 0\<rparr>"

text \<open>
  Inside a function whose \<open>finally\<close> or \<open>catch\<close> block reads its \<open>let\<close> variables, the state is
  the frame's variables and the host.
\<close>

definition lift :: "('h, 'a) js \<Rightarrow> ('l \<times> 'h, 'a) js" where
  "lift m = (\<lambda>(l, h). case m h of (r, evs, h') \<Rightarrow> (r, evs, (l, h')))"

definition assign :: "('l \<Rightarrow> 'l) \<Rightarrow> ('l \<times> 'h, unit) js" where
  "assign f = (\<lambda>(l, h). (Inr (), [], (f l, h)))"

definition read_locals :: "('l \<times> 'h, 'l) js" where
  "read_locals = (\<lambda>(l, h). (Inr l, [], (l, h)))"

text \<open>\<open>params ?? null\<close>\<close>

fun nullish_to_null :: "value \<Rightarrow> value" where
  "nullish_to_null Undefined = Null"
| "nullish_to_null v = v"

text \<open>\<open>if (ptr > 0) { deallocate(ptr, len) }\<close>\<close>

definition release_if_positive :: "'h foreign \<Rightarrow> int \<Rightarrow> int \<Rightarrow> (locals \<times> 'h, unit) js" where
  "release_if_positive F ptr len = (if 0 < ptr then lift (deallocate F ptr len) else ret ())"

text \<open>The outer \<open>finally\<close> block: the three parameter buffers, in order.\<close>

definition release_params :: "'h foreign \<Rightarrow> (locals \<times> 'h, unit) js" where
  "release_params F =
     bind read_locals (\<lambda>l.
     bind (release_if_positive F (actionNamePtr l) (actionNameLen l)) (\<lambda>_.
     bind (release_if_positive F (paramsPtr l) (paramsLen l)) (\<lambda>_.
     release_if_positive F (contextPtr l) (contextLen l))))"

text \<open>\<open>__host.call(actionNamePtr, actionNameLen, paramsPtr, paramsLen, contextPtr, contextLen)\<close>\<close>

definition issue_host_call :: "'h foreign \<Rightarrow> (locals \<times> 'h, unit) js" where
  "issue_host_call F =
     bind read_locals (\<lambda>l.
       lift (foreign_unit
         (HostCall (actionNamePtr l) (actionNameLen l) (paramsPtr l) (paramsLen l)
            (contextPtr l) (contextLen l))
         (host_call F (actionNamePtr l) (actionNameLen l) (paramsPtr l) (paramsLen l)
            (contextPtr l) (contextLen l))))"

text \<open>The Asyncify-aware path (\<open>__ASYNC_BUILD__\<close> is \<open>true\<close>), with its own \<open>try\<close>/\<open>finally\<close>.\<close>

definition execute_async_path :: "'h foreign \<Rightarrow> builtins \<Rightarrow> (locals \<times> 'h, value) js" where
  "execute_async_path F B =
     try_finally
       (bind (lift (foreign_number AsyncifyGetState (asyncify_get_state F))) (\<lambda>state.
        bind (if state = 2
              then lift (foreign_unit AsyncifyStopRewind (asyncify_stop_rewind F))
              else issue_host_call F) (\<lambda>_.
        bind (lift (foreign_number GetResponsePtr (wasm_get_response_ptr F))) (\<lambda>ptr.
        bind (assign (\<lambda>l. l\<lparr>responsePtr := ptr\<rparr>)) (\<lambda>_.
        bind (lift (foreign_number GetResponseLen (wasm_get_response_len F))) (\<lambda>len.
        bind (assign (\<lambda>l. l\<lparr>responseLen := len\<rparr>)) (\<lambda>_.
        bind (lift (readBufferSlice F ptr len)) (\<lambda>resultBytes.
        bind (pure_js (TextDecoder_decode B resultBytes)) (\<lambda>resultJSON.
        bind (lift (foreign_unit ClearResponseBuffer (wasm_clear_response_buffer F))) (\<lambda>_.
        pure_js (JSON_parse B resultJSON)))))))))))
       (bind read_locals (\<lambda>l. release_if_positive F (responsePtr l) (responseLen l)))"

text \<open>The response synthesized when the host reports a result of size zero.\<close>

definition empty_result_response :: "value" where
  "empty_result_response =
     Obj [(js ''error'', Obj [(js ''message'', Str (js ''Host returned an empty result.''))]),
          (js ''ok'', Bool False)]"

text \<open>The synchronous path (\<open>__ASYNC_BUILD__\<close> is \<open>false\<close>), with its own \<open>try\<close>/\<open>finally\<close>.\<close>

definition execute_sync_path :: "'h foreign \<Rightarrow> builtins \<Rightarrow> (locals \<times> 'h, value) js" where
  "execute_sync_path F B =
     try_finally
       (bind (issue_host_call F) (\<lambda>_.
        bind (lift (foreign_number GetExecutionResultSize (host_getExecutionResultSize F))) (\<lambda>len.
        bind (assign (\<lambda>l. l\<lparr>resultLen := len\<rparr>)) (\<lambda>_.
        if len = 0 then ret empty_result_response
        else
        bind (lift (allocate F len)) (\<lambda>ptr.
        bind (assign (\<lambda>l. l\<lparr>resultPtr := ptr\<rparr>)) (\<lambda>_.
        bind (lift (foreign_unit (GetExecutionResult ptr) (host_getExecutionResult F ptr))) (\<lambda>_.
        bind (lift (readBufferSlice F ptr len)) (\<lambda>resultBytes.
        bind (pure_js (TextDecoder_decode B resultBytes)) (\<lambda>resultJSON.
        pure_js (JSON_parse B resultJSON))))))))))
       (bind read_locals (\<lambda>l. release_if_positive F (resultPtr l) (resultLen l)))"

text \<open>
  The outer \<open>try\<close> block of \<open>execute\<close>: serialize, obtain the three handles (each pair
  of variables is assigned only when its \<open>stringToPtr\<close> returned), then the path the build
  selected.
\<close>

definition execute_body ::
  "'h foreign \<Rightarrow> builtins \<Rightarrow> bool \<Rightarrow> jsstring \<Rightarrow> value \<Rightarrow> value \<Rightarrow> (locals \<times> 'h, value) js" where
  "execute_body F B async_build actionName params context =
     bind (pure_js (JSON_stringify B (nullish_to_null params))) (\<lambda>paramsJSON.
     bind (pure_js (JSON_stringify B context)) (\<lambda>contextJSON.
     bind (lift (stringToPtr F actionName)) (\<lambda>(ptr, len).
     bind (assign (\<lambda>l. l\<lparr>actionNamePtr := ptr, actionNameLen := len\<rparr>)) (\<lambda>_.
     bind (lift (stringToPtr F paramsJSON)) (\<lambda>(ptr, len).
     bind (assign (\<lambda>l. l\<lparr>paramsPtr := ptr, paramsLen := len\<rparr>)) (\<lambda>_.
     bind (lift (stringToPtr F contextJSON)) (\<lambda>(ptr, len).
     bind (assign (\<lambda>l. l\<lparr>contextPtr := ptr, contextLen := len\<rparr>)) (\<lambda>_.
     if async_build then execute_async_path F B else execute_sync_path F B))))))))"

definition execute_frame ::
  "'h foreign \<Rightarrow> builtins \<Rightarrow> bool \<Rightarrow> jsstring \<Rightarrow> value \<Rightarrow> value \<Rightarrow> (locals \<times> 'h, value) js" where
  "execute_frame F B async_build actionName params context =
     try_finally (execute_body F B async_build actionName params context) (release_params F)"

text \<open>\<open>execute\<close>: a fresh frame per entry; the frame is dropped on exit.\<close>

definition execute ::
  "'h foreign \<Rightarrow> builtins \<Rightarrow> bool \<Rightarrow> jsstring \<Rightarrow> value \<Rightarrow> value \<Rightarrow> ('h, value) js" where
  "execute F B async_build actionName params context =
     (\<lambda>h. case execute_frame F B async_build actionName params context (initial_locals, h) of
        (r, evs, (l, h')) \<Rightarrow> (r, evs, h'))"

text \<open>The variables of the frame when \<open>execute\<close> exits.\<close>

definition final_locals ::
  "'h foreign \<Rightarrow> builtins \<Rightarrow> bool \<Rightarrow> jsstring \<Rightarrow> value \<Rightarrow> value \<Rightarrow> 'h \<Rightarrow> locals" where
  "final_locals F B async_build actionName params context h =
     fst (state_of (execute_frame F B async_build actionName params context (initial_locals, h)))"

text \<open>\<open>executeAsync\<close>: fire and forget; nothing is released locally.\<close>

definition executeAsync ::
  "'h foreign \<Rightarrow> builtins \<Rightarrow> jsstring \<Rightarrow> value \<Rightarrow> value \<Rightarrow> ('h, unit) js" where
  "executeAsync F B actionName params context =
     bind (pure_js (JSON_stringify B (nullish_to_null params))) (\<lambda>paramsJSON.
     bind (pure_js (JSON_stringify B context)) (\<lambda>contextJSON.
     bind (stringToPtr F actionName) (\<lambda>(actionNamePtr, actionNameLen).
     bind (stringToPtr F paramsJSON) (\<lambda>(paramsPtr, paramsLen).
     bind (stringToPtr F contextJSON) (\<lambda>(contextPtr, contextLen).
       foreign_unit
         (HostCast actionNamePtr actionNameLen paramsPtr paramsLen contextPtr contextLen)
         (host_cast F actionNamePtr actionNameLen paramsPtr paramsLen contextPtr contextLen))))))"

text \<open>\<open>getContext\<close>: the pull sequence for the initial payload.\<close>

definition getContext :: "'h foreign \<Rightarrow> ('h, bytes) js" where
  "getContext F =
     bind (foreign_number GetContextSize (host_getContextSize F)) (\<lambda>sz.
     if sz = 0 then ret []
     else
     bind (allocate F sz) (\<lambda>ptr.
     try_finally
       (bind (foreign_unit (GetContext ptr) (host_getContext F ptr)) (\<lambda>_.
        readBufferSlice F ptr sz))
       (deallocate F ptr sz)))"

section \<open>The entry-point driver (\<open>index.ts\<close>)\<close>

text \<open>Truthiness, as \<open>if (v)\<close> and \<open>!v\<close> read a value; \<open>nullish\<close> is what \<open>??\<close> and \<open>?.\<close> test.\<close>

fun truthy :: "value \<Rightarrow> bool" where
  "truthy Undefined = False"
| "truthy Null = False"
| "truthy (Bool b) = b"
| "truthy (Num n) = (n \<noteq> 0)"
| "truthy (Str str) = (str \<noteq> [])"
| "truthy (Arr vs) = True"
| "truthy (Obj kvs) = True"

fun nullish :: "value \<Rightarrow> bool" where
  "nullish Undefined = True"
| "nullish Null = True"
| "nullish v = False"

text \<open>
  A property read \<open>v.k\<close> for the names the driver uses: a \<open>TypeError\<close> on \<open>undefined\<close> and
  \<open>null\<close>, an object's own property, \<open>undefined\<close> where there is none.
\<close>

fun member :: "value \<Rightarrow> jsstring \<Rightarrow> exn + value" where
  "member Undefined k = Inl (Exn (js ''Cannot read properties of undefined''))"
| "member Null k = Inl (Exn (js ''Cannot read properties of null''))"
| "member (Obj kvs) k = Inr (case map_of kvs k of None \<Rightarrow> Undefined | Some v \<Rightarrow> v)"
| "member v k = Inr Undefined"

text \<open>What awaiting a promise gives: its value, its rejection, or nothing, ever.\<close>

datatype settlement = Fulfilled "value" | Rejected exn | Pending

text \<open>How an \<open>async\<close> function ends when it does not throw: settled, or suspended for ever.\<close>

datatype 'a awaited = Settled 'a | Forever

text \<open>The class \<open>Request\<close>; its constructor reads three properties of the request.\<close>

record request =
  request_context :: "value"
  request_headers :: "value"
  request_rawData :: "value"

definition new_Request :: "value \<Rightarrow> exn + request" where
  "new_Request simpleRequest =
     (case member simpleRequest (js ''context'') of Inl e \<Rightarrow> Inl e | Inr c \<Rightarrow>
      case member simpleRequest (js ''headers'') of Inl e \<Rightarrow> Inl e | Inr hs \<Rightarrow>
      case member simpleRequest (js ''data'') of Inl e \<Rightarrow> Inl e | Inr d \<Rightarrow>
        Inr \<lparr>request_context = c, request_headers = hs,
             request_rawData = (if nullish d then Str [] else d)\<rparr>)"

text \<open>
  \<open>readInputFromHost\<close>, over the value of \<open>globalThis.__SIMPLE_INITIAL_PAYLOAD__\<close> and the
  \<open>getContext\<close> of the host module the build links. \<open>None\<close> is \<open>undefined\<close>, which is what
  \<open>JSON.stringify\<close> gives for a payload without a request.
\<close>

definition readInputFromHost ::
  "builtins \<Rightarrow> value \<Rightarrow> ('s, bytes) js \<Rightarrow> ('s, jsstring option) js" where
  "readInputFromHost B payload host_getContext_impl =
     (if truthy payload
      then bind (pure_js (member payload (js ''request''))) (\<lambda>req.
             if req = Undefined then ret None
             else bind (pure_js (JSON_stringify B req)) (\<lambda>str. ret (Some str)))
      else bind host_getContext_impl (\<lambda>buffer.
           bind (pure_js (TextDecoder_decode B buffer)) (\<lambda>str. ret (Some str))))"

text \<open>\<open>!inputText\<close>, and the text when there is one.\<close>

fun no_input :: "jsstring option \<Rightarrow> bool" where
  "no_input None = True"
| "no_input (Some str) = (str = [])"

fun input_text :: "jsstring option \<Rightarrow> jsstring" where
  "input_text None = []"
| "input_text (Some str) = str"

definition error_response :: "jsstring \<Rightarrow> value" where
  "error_response msg =
     Obj [(js ''data'', Null), (js ''errors'', Arr [Str msg]), (js ''ok'', Bool False)]"

definition success_response :: "value \<Rightarrow> value" where
  "success_response data =
     Obj [(js ''data'', data), (js ''errors'', Arr []), (js ''ok'', Bool True)]"

text \<open>\<open>{ logic: { execution_id: 'unknown' } }\<close>\<close>

definition fallback_context :: "value" where
  "fallback_context = Obj [(js ''logic'', Obj [(js ''execution_id'', Str (js ''unknown''))])]"

definition returnError :: "'h foreign \<Rightarrow> builtins \<Rightarrow> jsstring \<Rightarrow> value \<Rightarrow> ('h, unit) js" where
  "returnError F B msg ctx =
     executeAsync F B (js ''__done__'') (error_response msg)
       (if nullish ctx then fallback_context else ctx)"

definition returnSuccess :: "'h foreign \<Rightarrow> builtins \<Rightarrow> value \<Rightarrow> value \<Rightarrow> ('h, unit) js" where
  "returnSuccess F B data ctx =
     executeAsync F B (js ''__done__'') (success_response data) ctx"

text \<open>\<open>result.error?.message ?? 'Unconstrained script execution failed'\<close>, as \<open>new Error\<close> keeps it.\<close>

definition failure_message :: "builtins \<Rightarrow> value \<Rightarrow> exn + jsstring" where
  "failure_message B result =
     (case member result (js ''error'') of Inl e \<Rightarrow> Inl e | Inr err \<Rightarrow>
        if nullish err then Inr (js ''Unconstrained script execution failed'')
        else (case member err (js ''message'') of Inl e \<Rightarrow> Inl e | Inr m \<Rightarrow>
          Inr (if nullish m then js ''Unconstrained script execution failed'' else ToString B m)))"

text \<open>
  The \<open>try\<close> block of \<open>handle\<close> outside the script worker. The frame holds the variable
  \<open>context\<close>, \<open>undefined\<close> until the request was parsed. \<open>bundle\<close> is \<open>__USER_SCRIPT_BUNDLE__\<close>
  (\<open>None\<close> when it is not defined); the handler returns what its promise does.
\<close>

definition handle_try ::
  "'h foreign \<Rightarrow> builtins \<Rightarrow> value \<Rightarrow> bool \<Rightarrow> jsstring option \<Rightarrow>
   (request \<Rightarrow> ('h, settlement) js) \<Rightarrow> (value \<times> 'h, unit awaited) js" where
  "handle_try F B payload async_build bundle handler =
     bind (lift (readInputFromHost B payload (getContext F))) (\<lambda>inputText.
     if no_input inputText
     then bind (lift (returnError F B (js ''no input payload provided by the host environment'')
                  Undefined)) (\<lambda>_. ret (Settled ()))
     else
     bind (pure_js (JSON_parse B (input_text inputText))) (\<lambda>simpleReq.
     bind (pure_js (member simpleReq (js ''context''))) (\<lambda>c.
     bind (assign (\<lambda>_. c)) (\<lambda>_.
     if async_build
     then (case bundle of
         None \<Rightarrow> throw (Exn (js
           ''CRITICAL: __USER_SCRIPT_BUNDLE__ is not defined in async build. Check the build script.''))
       | Some script \<Rightarrow>
           bind (lift (execute F B True (js ''runtime/script:execute'')
                   (Obj [(js ''payload'', Obj [(js ''request'', simpleReq)]),
                         (js ''script'', Str script)]) c)) (\<lambda>result.
           bind (pure_js (member result (js ''ok''))) (\<lambda>ok.
           if \<not> truthy ok
           then bind (pure_js (failure_message B result)) (\<lambda>msg. throw (Exn msg))
           else
           bind (pure_js (member result (js ''data''))) (\<lambda>data.
           bind (lift (returnSuccess F B data c)) (\<lambda>_. ret (Settled ()))))))
     else
     bind (pure_js (new_Request simpleReq)) (\<lambda>request.
     bind (lift (handler request)) (\<lambda>resultPromise.
     case resultPromise of
       Fulfilled result \<Rightarrow> bind (lift (returnSuccess F B result c)) (\<lambda>_. ret (Settled ()))
     | Rejected e \<Rightarrow> throw e
     | Pending \<Rightarrow> ret Forever))))))"

text \<open>\<open>catch (e) { returnError(e.message, context) }\<close>\<close>

definition handle_catch :: "'h foreign \<Rightarrow> builtins \<Rightarrow> exn \<Rightarrow> (value \<times> 'h, unit awaited) js" where
  "handle_catch F B e =
     bind read_locals (\<lambda>c.
     bind (lift (returnError F B (message e) c)) (\<lambda>_. ret (Settled ())))"

text \<open>\<open>handle\<close> in every build but the script worker's.\<close>

definition handle ::
  "'h foreign \<Rightarrow> builtins \<Rightarrow> value \<Rightarrow> bool \<Rightarrow> jsstring option \<Rightarrow>
   (request \<Rightarrow> ('h, settlement) js) \<Rightarrow> ('h, unit awaited) js" where
  "handle F B payload async_build bundle handler =
     (\<lambda>h. case try_catch (handle_try F B payload async_build bundle handler) (handle_catch F B)
                 (Undefined, h) of
        (r, evs, (c, h')) \<Rightarrow> (r, evs, h'))"

text \<open>
  The statements of \<open>executeAsync\<close> before the cast: the two texts and the three handles.
  \<open>executeAsync\<close> is shown below to be this block followed by \<open>__host.cast\<close>.
\<close>

definition marshal ::
  "'h foreign \<Rightarrow> builtins \<Rightarrow> jsstring \<Rightarrow> value \<Rightarrow> value \<Rightarrow>
     ('h, (int \<times> int) \<times> (int \<times> int) \<times> (int \<times> int)) js" where
  "marshal F B actionName params context =
     bind (pure_js (JSON_stringify B (nullish_to_null params))) (\<lambda>paramsJSON.
     bind (pure_js (JSON_stringify B context)) (\<lambda>contextJSON.
     bind (stringToPtr F actionName) (\<lambda>name_handle.
     bind (stringToPtr F paramsJSON) (\<lambda>params_handle.
     bind (stringToPtr F contextJSON) (\<lambda>context_handle.
       ret (name_handle, params_handle, context_handle))))))"

definition cast ::
  "'h foreign \<Rightarrow> (int \<times> int) \<times> (int \<times> int) \<times> (int \<times> int) \<Rightarrow> ('h, unit) js" where
  "cast F handles =
     (case handles of ((p1, n1), (p2, n2), (p3, n3)) \<Rightarrow>
        foreign_unit (HostCast p1 n1 p2 n2 p3 n3) (host_cast F p1 n1 p2 n2 p3 n3))"

fun is_host_cast :: "event \<Rightarrow> bool" where
  "is_host_cast (Foreign (HostCast p1 n1 p2 n2 p3 n3) r) = True"
| "is_host_cast e = False"

text \<open>
  For stating what \<open>handle\<close> does: \<open>returnError(msg, undefined)\<close> as the last statement of
  \<open>handle\<close>; a run continued after earlier events; and \<open>context.logic.execution_id\<close>.
\<close>

definition report_without_context ::
  "'h foreign \<Rightarrow> builtins \<Rightarrow> jsstring \<Rightarrow> ('h, unit awaited) js" where
  "report_without_context F B msg =
     bind (returnError F B msg Undefined) (\<lambda>_. ret (Settled ()))"

definition after ::
  "event list \<Rightarrow> (exn + 'a) \<times> event list \<times> 's \<Rightarrow> (exn + 'a) \<times> event list \<times> 's" where
  "after evs t = (outcome_of t, evs @ events_of t, state_of t)"

definition execution_id_of :: "value \<Rightarrow> exn + value" where
  "execution_id_of ctx =
     (case member ctx (js ''logic'') of
        Inl e \<Rightarrow> Inl e
      | Inr logic \<Rightarrow> member logic (js ''execution_id''))"

section \<open>The script worker: the promise channel (\<open>cli/build.js\<close>, \<open>index.ts\<close>)\<close>

text \<open>
  The globals of the script worker. \<open>globalThis.__SIMPLE_PROMISE_CHANNEL__\<close> holds a reference
  to a channel object or is absent; the channel objects live in a store, each with its
  \<open>promise\<close> property (\<open>None\<close> is \<open>null\<close>), since the wrapper keeps its own reference to the
  object it created.
\<close>

record worker =
  promise_channel :: "nat option"
  channels :: "(nat \<times> settlement option) list"
  initial_payload :: "value"

definition fresh_channel :: "worker \<Rightarrow> nat" where
  "fresh_channel w = Suc (fold max (map fst (channels w)) 0)"

text \<open>\<open>channel.promise\<close>\<close>

definition channel_promise :: "worker \<Rightarrow> nat \<Rightarrow> settlement option" where
  "channel_promise w c = (case map_of (channels w) c of None \<Rightarrow> None | Some p \<Rightarrow> p)"

text \<open>\<open>const channel = { promise: null }\<close>\<close>

definition new_channel :: "worker \<Rightarrow> nat \<times> worker" where
  "new_channel w = (fresh_channel w, w\<lparr>channels := (fresh_channel w, None) # channels w\<rparr>)"

text \<open>\<open>globalThis.__SIMPLE_PROMISE_CHANNEL__ = channel\<close>\<close>

definition install_channel :: "nat \<Rightarrow> (worker, unit) js" where
  "install_channel c = (\<lambda>w. (Inr (), [], w\<lparr>promise_channel := Some c\<rparr>))"

text \<open>\<open>globalThis.__SIMPLE_PROMISE_CHANNEL__.promise = p\<close>, the channel being there.\<close>

definition place_promise :: "nat \<Rightarrow> settlement \<Rightarrow> (worker, unit) js" where
  "place_promise c p = (\<lambda>w. (Inr (), [], w\<lparr>channels := (c, Some p) # channels w\<rparr>))"

definition console_warn :: "jsstring \<Rightarrow> ('s, unit) js" where
  "console_warn msg = (\<lambda>s. (Inr (), [ConsoleWarn msg], s))"

text \<open>\<open>getContext\<close> of \<open>worker-override.js\<close>, the host module of the worker build.\<close>

definition worker_getContext :: "(worker, bytes) js" where
  "worker_getContext =
     bind (console_warn (js
       ''getContext() was called in a script worker context, which is not supported.''))
       (\<lambda>_. ret [])"

text \<open>
  The last statements of \<open>handle\<close> in the script worker: without a channel it throws, with
  one it leaves the promise there.
\<close>

definition place_result :: "settlement \<Rightarrow> (worker, unit) js" where
  "place_result resultPromise =
     (\<lambda>w. case promise_channel w of
        None \<Rightarrow> throw (Exn (js
          ''CRITICAL: Script worker context is missing the promise channel.'')) w
      | Some c \<Rightarrow> place_promise c resultPromise w)"

text \<open>
  \<open>handle\<close> in the script worker build (\<open>__IS_WORKER_BUILD__\<close>): it parses the input, calls the
  handler and leaves the handler's promise on the channel.
\<close>

definition handle_in_worker ::
  "builtins \<Rightarrow> (request \<Rightarrow> (worker, settlement) js) \<Rightarrow> (worker, unit) js" where
  "handle_in_worker B handler =
     bind (\<lambda>w. readInputFromHost B (initial_payload w) worker_getContext w) (\<lambda>inputText.
     if no_input inputText
     then bind (\<lambda>w. case promise_channel w of
                   None \<Rightarrow> ret () w
                 | Some c \<Rightarrow> place_promise c
                     (Rejected (Exn (js ''no input payload provided by the host environment''))) w)
            (\<lambda>_. throw (Exn (js ''no input payload provided by the host environment'')))
     else
     bind (pure_js (JSON_parse B (input_text inputText))) (\<lambda>simpleReq.
     bind (pure_js (new_Request simpleReq)) (\<lambda>request.
     bind (handler request) (\<lambda>resultPromise.
       place_result resultPromise))))"

text \<open>
  The default export of the generated entry point. \<open>import_app\<close> is the evaluation of the
  user's application by \<open>await import(...)\<close>. When an \<open>await\<close> never resumes, the \<open>finally\<close> block
  is not reached.
\<close>

definition main_handler :: "(worker, unit awaited) js \<Rightarrow> (worker, value awaited) js" where
  "main_handler import_app =
     (\<lambda>w. case new_channel w of (channel, w0) \<Rightarrow>
        (case
           (bind (install_channel channel) (\<lambda>_.
            bind import_app (\<lambda>imported.
            case imported of
              Forever \<Rightarrow> ret Forever
            | Settled u \<Rightarrow>
                bind (\<lambda>w. (Inr (channel_promise w channel), [], w)) (\<lambda>promise.
                case promise of
                  Some (Fulfilled v) \<Rightarrow> ret (Settled v)
                | Some (Rejected e) \<Rightarrow> throw e
                | Some Pending \<Rightarrow> ret Forever
                | None \<Rightarrow>
                    bind (console_warn (js
                      ''SDK build warning: simple.Handle was not called by the user application.''))
                      (\<lambda>_. ret (Settled Undefined)))))) w0
         of
           (Inr Forever, evs, w') \<Rightarrow> (Inr Forever, evs, w')
         | (r, evs, w') \<Rightarrow> (r, evs, w'\<lparr>promise_channel := None\<rparr>)))"

text \<open>
  The state in which the wrapper starts the application: its own channel created and put in
  place.
\<close>

definition entered :: "worker \<Rightarrow> worker" where
  "entered w = (snd (new_channel w))\<lparr>promise_channel := Some (fst (new_channel w))\<rparr>"

text \<open>Two applications: one whose top level calls \<open>simple.Handle\<close>, one that never does.\<close>

definition app_calling_handle ::
  "builtins \<Rightarrow> (request \<Rightarrow> (worker, settlement) js) \<Rightarrow> (worker, unit awaited) js" where
  "app_calling_handle B handler =
     (\<lambda>w. case handle_in_worker B handler w of (r, evs, w') \<Rightarrow> (Inr (Settled ()), evs, w'))"

definition app_without_handle :: "(worker, unit awaited) js" where
  "app_without_handle = ret (Settled ())"

section \<open>A reference host for concrete runs\<close>

text \<open>
  A small host used to run the bridge on concrete inputs: a bump allocator, an arena that
  keeps each written string at its offset, one staged result, and the Asyncify state.
\<close>

record mock =
  next_free :: int
  cells :: "(int \<times> jsstring) list"
  staged :: jsstring
  staged_len :: int
  suspend_state :: int

definition mock_foreign :: "mock foreign" where
  "mock_foreign =
     \<lparr>wasm_alloc = (\<lambda>n h. (Inr (next_free h), h\<lparr>next_free := next_free h + n\<rparr>)),
      wasm_clear_response_buffer = (\<lambda>h. (Inr (), h\<lparr>staged := [], staged_len := 0\<rparr>)),
      wasm_dealloc = (\<lambda>ptr n h. (Inr (), h)),
      wasm_get_response_len = (\<lambda>h. (Inr (staged_len h), h)),
      wasm_get_response_ptr =
        (\<lambda>h. (Inr (next_free h), h\<lparr>cells := (next_free h, staged h) # cells h\<rparr>)),
      wasm_read_string = (\<lambda>ptr n h.
         case map_of (cells h) ptr of
           None \<Rightarrow> (Inl (Exn (js ''memory access out of bounds'')), h)
         | Some str \<Rightarrow> (Inr str, h)),
      wasm_write_string = (\<lambda>ptr str h. (Inr (), h\<lparr>cells := (ptr, str) # cells h\<rparr>)),
      host_call = (\<lambda>p1 n1 p2 n2 p3 n3 h. (Inr (), h)),
      host_cast = (\<lambda>p1 n1 p2 n2 p3 n3 h. (Inr (), h)),
      host_getContext = (\<lambda>ptr h. (Inr (), h\<lparr>cells := (ptr, staged h) # cells h\<rparr>)),
      host_getContextSize = (\<lambda>h. (Inr (staged_len h), h)),
      host_getExecutionResult = (\<lambda>ptr h. (Inr (), h\<lparr>cells := (ptr, staged h) # cells h\<rparr>)),
      host_getExecutionResultSize = (\<lambda>h. (Inr (staged_len h), h)),
      asyncify_get_state = (\<lambda>h. (Inr (suspend_state h), h)),
      asyncify_stop_rewind = (\<lambda>h. (Inr (), h\<lparr>suspend_state := 0\<rparr>))\<rparr>"

text \<open>The same host with an arena whose reads fault.\<close>

definition faulty_foreign :: "mock foreign" where
  "faulty_foreign =
     mock_foreign\<lparr>wasm_read_string :=
       (\<lambda>ptr n h. (Inl (Exn (js ''memory access out of bounds'')), h))\<rparr>"

text \<open>The same host with a \<open>dealloc\<close> that throws whatever it is given.\<close>

definition refusing_foreign :: "mock foreign" where
  "refusing_foreign =
     mock_foreign\<lparr>wasm_dealloc := (\<lambda>ptr n h. (Inl (Exn (js ''dealloc failed'')), h))\<rparr>"

text \<open>The same host with an arena that has no room: every \<open>alloc\<close> throws.\<close>

definition exhausted_foreign :: "mock foreign" where
  "exhausted_foreign =
     mock_foreign\<lparr>wasm_alloc := (\<lambda>n h. (Inl (Exn (js ''out of memory'')), h))\<rparr>"

text \<open>
  Stand-ins for the runtime's globals: a decoder that reads every octet as one code unit
  (right on ASCII), a printer for values without numbers' fractions and without characters
  that need escaping, and a parser that knows the texts \<open>null\<close> and \<open>{}\<close> and rejects the
  other texts the runs below give it, none of which is JSON.
\<close>

function show_nat :: "nat \<Rightarrow> jsstring" where
  "show_nat n =
     (if n < 10 then [word_of_nat (48 + n)]
      else show_nat (n div 10) @ [word_of_nat (48 + n mod 10)])"
  by pat_completeness auto
termination
  by (relation "measure (\<lambda>n. n)") auto

fun show_json :: "value \<Rightarrow> jsstring"
  and show_elements :: "value list \<Rightarrow> jsstring"
  and show_members :: "(jsstring \<times> value) list \<Rightarrow> jsstring" where
  "show_json Undefined = js ''null''"
| "show_json Null = js ''null''"
| "show_json (Bool b) = (if b then js ''true'' else js ''false'')"
| "show_json (Num n) = (if n < 0 then js ''-'' @ show_nat (nat (- n)) else show_nat (nat n))"
| "show_json (Str str) = [0x22] @ str @ [0x22]"
| "show_json (Arr vs) = js ''['' @ show_elements vs @ js '']''"
| "show_json (Obj kvs) = js ''{'' @ show_members kvs @ js ''}''"
| "show_elements [] = []"
| "show_elements [v] = show_json v"
| "show_elements (v # w # vs) = show_json v @ js '','' @ show_elements (w # vs)"
| "show_members [] = []"
| "show_members [(k, v)] = [0x22] @ k @ [0x22] @ js '':'' @ show_json v"
| "show_members ((k, v) # kv # kvs) =
     [0x22] @ k @ [0x22] @ js '':'' @ show_json v @ js '','' @ show_members (kv # kvs)"

definition mock_builtins :: builtins where
  "mock_builtins =
     \<lparr>TextDecoder_decode = (\<lambda>octets. Inr (map ucast octets)),
      JSON_stringify = (\<lambda>v. case v of
          Undefined \<Rightarrow> Inl (Exn (js ''undefined''))
        | _ \<Rightarrow> Inr (show_json v)),
      JSON_parse = (\<lambda>str.
        if str = js ''null'' then Inr Null
        else if str = js ''{}'' then Inr (Obj [])
        else if str = [] then Inl (Exn (js ''Unexpected end of JSON input''))
        else Inl (Exn (js ''Unexpected token''))),
      ToString = (\<lambda>v. case v of Str str \<Rightarrow> str | _ \<Rightarrow> show_json v)\<rparr>"

definition mock_start :: "int \<Rightarrow> mock" where
  "mock_start p =
     \<lparr>next_free = p, cells = [], staged = [], staged_len = 0, suspend_state = 0\<rparr>"

section \<open>Observations on traces\<close>

text \<open>\<open>emits P m\<close>: every event the computation \<open>m\<close> emits, from any state, satisfies \<open>P\<close>.\<close>

definition emits :: "(event \<Rightarrow> bool) \<Rightarrow> ('s, 'a) js \<Rightarrow> bool" where
  "emits P m = (\<forall>s. list_all P (events_of (m s)))"

text \<open>A \<open>dealloc\<close> call is made with a strictly positive offset.\<close>

fun dealloc_positive :: "event \<Rightarrow> bool" where
  "dealloc_positive (Foreign (Dealloc ptr n) r) = (0 < ptr)"
| "dealloc_positive e = True"

fun is_host_call :: "event \<Rightarrow> bool" where
  "is_host_call (Foreign (HostCall p1 n1 p2 n2 p3 n3) r) = True"
| "is_host_call e = False"

fun is_stop_rewind :: "event \<Rightarrow> bool" where
  "is_stop_rewind (Foreign AsyncifyStopRewind r) = True"
| "is_stop_rewind e = False"

fun is_get_state :: "event \<Rightarrow> bool" where
  "is_get_state (Foreign AsyncifyGetState r) = True"
| "is_get_state e = False"

text \<open>How often a trace shows \<open>__host.call\<close>, and how often \<open>asyncify_stop_rewind\<close>.\<close>

definition host_calls :: "event list \<Rightarrow> nat" where
  "host_calls evs = length (filter is_host_call evs)"

definition stop_rewinds :: "event list \<Rightarrow> nat" where
  "stop_rewinds evs = length (filter is_stop_rewind evs)"

definition quiet :: "event \<Rightarrow> bool" where
  "quiet e = (\<not> is_host_call e \<and> \<not> is_stop_rewind e \<and> \<not> is_get_state e)"

section \<open>The blocks of \<open>execute\<close>, named\<close>

text \<open>
  The statements of \<open>execute\<close> in groups, as the proofs take them: obtaining the three
  parameter handles, the Asyncify branch, reading the staged response, and the inner
  \<open>finally\<close> of the Asyncify path. \<open>execute_body\<close> and \<open>execute_async_path\<close> are shown below to be
  these blocks in sequence.
\<close>

definition acquire_params ::
  "'h foreign \<Rightarrow> builtins \<Rightarrow> jsstring \<Rightarrow> value \<Rightarrow> value \<Rightarrow> (locals \<times> 'h, unit) js" where
  "acquire_params F B actionName params context =
     bind (pure_js (JSON_stringify B (nullish_to_null params))) (\<lambda>paramsJSON.
     bind (pure_js (JSON_stringify B context)) (\<lambda>contextJSON.
     bind (lift (stringToPtr F actionName)) (\<lambda>(ptr, len).
     bind (assign (\<lambda>l. l\<lparr>actionNamePtr := ptr, actionNameLen := len\<rparr>)) (\<lambda>_.
     bind (lift (stringToPtr F paramsJSON)) (\<lambda>(ptr, len).
     bind (assign (\<lambda>l. l\<lparr>paramsPtr := ptr, paramsLen := len\<rparr>)) (\<lambda>_.
     bind (lift (stringToPtr F contextJSON)) (\<lambda>(ptr, len).
     assign (\<lambda>l. l\<lparr>contextPtr := ptr, contextLen := len\<rparr>))))))))"

definition resume_or_call :: "'h foreign \<Rightarrow> (locals \<times> 'h, unit) js" where
  "resume_or_call F =
     bind (lift (foreign_number AsyncifyGetState (asyncify_get_state F))) (\<lambda>state.
       if state = 2
       then lift (foreign_unit AsyncifyStopRewind (asyncify_stop_rewind F))
       else issue_host_call F)"

definition read_staged_response :: "'h foreign \<Rightarrow> builtins \<Rightarrow> (locals \<times> 'h, value) js" where
  "read_staged_response F B =
        bind (lift (foreign_number GetResponsePtr (wasm_get_response_ptr F))) (\<lambda>ptr.
        bind (assign (\<lambda>l. l\<lparr>responsePtr := ptr\<rparr>)) (\<lambda>_.
        bind (lift (foreign_number GetResponseLen (wasm_get_response_len F))) (\<lambda>len.
        bind (assign (\<lambda>l. l\<lparr>responseLen := len\<rparr>)) (\<lambda>_.
        bind (lift (readBufferSlice F ptr len)) (\<lambda>resultBytes.
        bind (pure_js (TextDecoder_decode B resultBytes)) (\<lambda>resultJSON.
        bind (lift (foreign_unit ClearResponseBuffer (wasm_clear_response_buffer F))) (\<lambda>_.
        pure_js (JSON_parse B resultJSON))))))))"

definition release_response :: "'h foreign \<Rightarrow> (locals \<times> 'h, unit) js" where
  "release_response F = bind read_locals (\<lambda>l. release_if_positive F (responsePtr l) (responseLen l))"



text \<open>No \<open>dealloc\<close> call threw.\<close>

fun dealloc_returned :: "event \<Rightarrow> bool" where
  "dealloc_returned (Foreign (Dealloc ptr n) (Threw e)) = False"
| "dealloc_returned e = True"

text \<open>
The blocks of the synchronous path: the host call with the size query, fetching a non-empty
result, and the inner \<open>finally\<close>.
\<close>

definition fetch_result :: "'h foreign \<Rightarrow> builtins \<Rightarrow> int \<Rightarrow> (locals \<times> 'h, value) js" where
  "fetch_result F B len =
        bind (lift (allocate F len)) (\<lambda>ptr.
        bind (assign (\<lambda>l. l\<lparr>resultPtr := ptr\<rparr>)) (\<lambda>_.
        bind (lift (foreign_unit (GetExecutionResult ptr) (host_getExecutionResult F ptr))) (\<lambda>_.
        bind (lift (readBufferSlice F ptr len)) (\<lambda>resultBytes.
        bind (pure_js (TextDecoder_decode B resultBytes)) (\<lambda>resultJSON.
        pure_js (JSON_parse B resultJSON))))))"

definition release_result :: "'h foreign \<Rightarrow> (locals \<times> 'h, unit) js" where
  "release_result F = bind read_locals (\<lambda>l. release_if_positive F (resultPtr l) (resultLen l))"

definition ask_result_size :: "'h foreign \<Rightarrow> (locals \<times> 'h, int) js" where
  "ask_result_size F =
     bind (issue_host_call F) (\<lambda>_.
     bind (lift (foreign_number GetExecutionResultSize (host_getExecutionResultSize F))) (\<lambda>len.
     bind (assign (\<lambda>l. l\<lparr>resultLen := len\<rparr>)) (\<lambda>_. ret len)))"

text \<open>\<open>keeps Q m\<close>: a property of the frame that holds before \<open>m\<close> holds after it.\<close>

definition keeps :: "(locals \<Rightarrow> bool) \<Rightarrow> (locals \<times> 'h, 'a) js \<Rightarrow> bool" where
  "keeps Q m = (\<forall>l h. Q l \<longrightarrow> Q (fst (state_of (m (l, h)))))"

text \<open>The three parameter handles a frame records, in the order of the outer \<open>finally\<close>.\<close>

definition param_handles :: "locals \<Rightarrow> (int \<times> int) list" where
  "param_handles l =
     [(actionNamePtr l, actionNameLen l), (paramsPtr l, paramsLen l), (contextPtr l, contextLen l)]"

text \<open>
The \<open>dealloc\<close> events of releasing a list of handles under the guard \<open>ptr > 0\<close>, each
call returning.
\<close>

definition releases :: "(int \<times> int) list \<Rightarrow> event list" where
  "releases handles =
     map (\<lambda>(ptr, len). Foreign (Dealloc ptr len) Done) (filter (\<lambda>(ptr, len). 0 < ptr) handles)"

fun is_dealloc :: "event \<Rightarrow> bool" where
  "is_dealloc (Foreign (Dealloc ptr n) r) = True"
| "is_dealloc e = False"

text \<open>
The buffers a trace shows passed to \<open>deallocate\<close>, in order, whether the call returned or
threw.
\<close>

fun dealloc_calls :: "event list \<Rightarrow> (int \<times> int) list" where
  "dealloc_calls [] = []"
| "dealloc_calls (Foreign (Dealloc ptr n) r # evs) = (ptr, n) # dealloc_calls evs"
| "dealloc_calls (e # evs) = dealloc_calls evs"

text \<open>The handles of a list whose offset is strictly greater than zero.\<close>

definition positive :: "(int \<times> int) list \<Rightarrow> (int \<times> int) list" where
  "positive handles = filter (\<lambda>(ptr, len). 0 < ptr) handles"

text \<open>Every buffer a frame records: staged response, result buffer, parameter handles.\<close>

definition recorded_buffers :: "locals \<Rightarrow> (int \<times> int) list" where
  "recorded_buffers l =
     [(responsePtr l, responseLen l), (resultPtr l, resultLen l)] @ param_handles l"


text \<open>
The run of the outer \<open>finally\<close> block of \<open>execute\<close>: the parameter cleanup, from the state
the \<open>try\<close> block left.
\<close>

definition cleanup ::
  "'h foreign \<Rightarrow> builtins \<Rightarrow> bool \<Rightarrow> jsstring \<Rightarrow> value \<Rightarrow> value \<Rightarrow> 'h \<Rightarrow>
     (exn + unit) \<times> event list \<times> (locals \<times> 'h)" where
  "cleanup F B async_build actionName params ctx h =
     release_params F
       (state_of (execute_body F B async_build actionName params ctx (initial_locals, h)))"

section \<open>Inputs of the concrete runs\<close>

text \<open>A handler that returns \<open>null\<close>.\<close>

definition null_handler :: "request \<Rightarrow> ('s, settlement) js" where
  "null_handler request = ret (Fulfilled Null)"

text \<open>A handler whose promise rejects.\<close>

definition failing_handler :: "request \<Rightarrow> ('s, settlement) js" where
  "failing_handler request = ret (Rejected (Exn (js ''handler failed'')))"

text \<open>
Three script workers at the start of the wrapper: one with no channel in place, one where a
channel is already in place, and one that was given an empty request.
\<close>

definition idle_worker :: worker where
  "idle_worker = \<lparr>promise_channel = None, channels = [], initial_payload = Undefined\<rparr>"

definition occupied_worker :: worker where
  "occupied_worker =
     \<lparr>promise_channel = Some 1, channels = [(1, None)], initial_payload = Undefined\<rparr>"

definition requested_worker :: worker where
  "requested_worker =
     \<lparr>promise_channel = None, channels = [],
      initial_payload = Obj [(js ''request'', Obj [])]\<rparr>"

text \<open>
The reference host with a two-byte text staged (\<open>ok\<close>, which is not JSON), allocating from
offset \<open>p\<close>.
\<close>

definition answering :: "int \<Rightarrow> mock" where
  "answering p = (mock_start p)\<lparr>staged := js ''ok'', staged_len := 2\<rparr>"

text \<open>The reference host on re-entry: a response is staged and the substrate is rewinding.\<close>

definition resumed :: mock where
  "resumed = (mock_start 16)\<lparr>staged := js ''ok'', staged_len := 2, suspend_state := 2\<rparr>"

section \<open>Properties of the buffer arena adapter\<close>

lemmas js_monad = bind_def ret_def throw_def try_catch_def try_finally_def pure_js_def
  console_error_def foreign_unit_def foreign_number_def foreign_text_def
  outcome_of_def events_of_def state_of_def

lemmas encoder_defs = TextEncoder_encode_def utf8_of_scalar_def lone_unit_def
  high_surrogate_def low_surrogate_def


lemma utf8_of_scalar_bounds:
  "utf8_of_scalar 0 = [0x00]" "utf8_of_scalar 0x7F = [0x7F]"
  "utf8_of_scalar 0x80 = [0xC2, 0x80]" "utf8_of_scalar 0x7FF = [0xDF, 0xBF]"
  "utf8_of_scalar 0x800 = [0xE0, 0xA0, 0x80]" "utf8_of_scalar 0xFFFF = [0xEF, 0xBF, 0xBF]"
  "utf8_of_scalar 0x10000 = [0xF0, 0x90, 0x80, 0x80]"
  "utf8_of_scalar 0x10FFFF = [0xF4, 0x8F, 0xBF, 0xBF]"
  by (simp_all add: utf8_of_scalar_def)

lemma readBufferSlice_never_throws: "\<not> isl (outcome_of (readBufferSlice F ptr len h))"
  by (simp add: readBufferSlice_def js_monad split: prod.splits sum.splits)




text \<open>
  C7, as the code has it. A request of size zero is legal and is passed on like any other:
  \<open>allocate 0\<close> issues one foreign \<open>alloc(0)\<close>. Converting the empty string issues exactly
  that one foreign call and no \<open>write_string\<close>, and when \<open>alloc\<close> returns, the handle is the
  offset it returned with length 0.
\<close>

theorem empty_string_allocates_once:
  "events_of (allocate F 0 h) = [Foreign (Alloc 0) (reply_number (fst (wasm_alloc F 0 h)))]
   \<and> events_of (stringToPtr F [] h) =
       [Foreign (Alloc 0) (reply_number (fst (wasm_alloc F 0 h)))]
   \<and> outcome_of (stringToPtr F [] h) =
       (case fst (wasm_alloc F 0 h) of Inl e \<Rightarrow> Inl e | Inr ptr \<Rightarrow> Inr (ptr, 0))"
  by (simp add: stringToPtr_def allocate_def js_monad split: prod.splits sum.splits)

text \<open>
  C7 as stated fails: on the reference host, converting the empty string does issue a
  foreign arena call.
\<close>

theorem empty_string_issues_alloc:
  "events_of (stringToPtr mock_foreign [] (mock_start 16)) = [Foreign (Alloc 0) (Number 16)]
   \<and> events_of (stringToPtr mock_foreign [] (mock_start 16)) \<noteq> []"
  by (simp add: stringToPtr_def allocate_def js_monad mock_foreign_def mock_start_def)

text \<open>
  C8. A read that faults at the foreign boundary does not raise past the adapter: for every
  offset and nonzero length, when \<open>read_string\<close> throws, \<open>readBufferSlice\<close> logs the fault
  and returns the empty byte sequence, and \<open>readString\<close> logs it and returns the empty string.
\<close>

theorem readBufferSlice_absorbs_read_fault:
  assumes "len \<noteq> 0" and "wasm_read_string F ptr len h = (Inl e, h')"
  shows "readBufferSlice F ptr len h =
           (Inr [], [Foreign (ReadString ptr len) (Threw e),
                     ConsoleError (js ''Memory read failed'') ptr len e], h')
         \<and> readString F ptr len h =
           (Inr [], [Foreign (ReadString ptr len) (Threw e),
                     ConsoleError (js ''String read failed'') ptr len e], h')"
  using assms by (simp add: readBufferSlice_def readString_def js_monad)

theorem readBufferSlice_absorbs_read_fault_witness:
  "(2::int) \<noteq> 0 \<and>
   wasm_read_string faulty_foreign 16 2 (mock_start 16) =
     (Inl (Exn (js ''memory access out of bounds'')), mock_start 16) \<and>
   readBufferSlice faulty_foreign 16 2 (mock_start 16) =
     (Inr [], [Foreign (ReadString 16 2) (Threw (Exn (js ''memory access out of bounds''))),
               ConsoleError (js ''Memory read failed'') 16 2
                 (Exn (js ''memory access out of bounds''))],
      mock_start 16)"
  using readBufferSlice_absorbs_read_fault [of 2 faulty_foreign 16 "mock_start 16"
       "Exn (js ''memory access out of bounds'')" "mock_start 16"]
  by (simp add: faulty_foreign_def)

section \<open>Traces of computations\<close>

lemma emits_ret: "emits P (ret x)" by (simp add: emits_def js_monad)
lemma emits_throw: "emits P (throw e)" by (simp add: emits_def js_monad)
lemma emits_pure_js: "emits P (pure_js r)" by (simp add: emits_def js_monad)
lemma emits_assign: "emits P (assign f)" by (simp add: emits_def assign_def js_monad split: prod.splits)
lemma emits_read_locals: "emits P read_locals" by (simp add: emits_def read_locals_def js_monad split: prod.splits)

lemma events_bind:
  "events_of (bind m f s) =
     events_of (m s) @ (case outcome_of (m s) of Inl e \<Rightarrow> [] | Inr x \<Rightarrow> events_of (f x (state_of (m s))))"
  by (simp add: js_monad split: prod.splits sum.splits)

lemma events_try_finally:
  "events_of (try_finally m fin s) = events_of (m s) @ events_of (fin (state_of (m s)))"
  by (simp add: js_monad split: prod.splits sum.splits)

lemma events_try_catch:
  "events_of (try_catch m handler s) =
     events_of (m s) @ (case outcome_of (m s) of Inl e \<Rightarrow> events_of (handler e (state_of (m s))) | Inr x \<Rightarrow> [])"
  by (simp add: js_monad split: prod.splits sum.splits)

lemma events_lift: "events_of (lift m (l, h)) = events_of (m h)"
  by (simp add: lift_def js_monad split: prod.splits)

lemma emits_bind: "emits P m \<Longrightarrow> (\<And>x. emits P (f x)) \<Longrightarrow> emits P (bind m f)"
  by (simp add: emits_def events_bind split: sum.splits)

lemma emits_try_finally: "emits P m \<Longrightarrow> emits P fin \<Longrightarrow> emits P (try_finally m fin)"
  by (simp add: emits_def events_try_finally)

lemma emits_try_catch: "emits P m \<Longrightarrow> (\<And>e. emits P (handler e)) \<Longrightarrow> emits P (try_catch m handler)"
  by (simp add: emits_def events_try_catch split: sum.splits)

lemma emits_lift: "emits P m \<Longrightarrow> emits P (lift m)"
  by (simp add: emits_def events_lift)

lemma emits_if: "(c \<Longrightarrow> emits P m) \<Longrightarrow> (\<not> c \<Longrightarrow> emits P n) \<Longrightarrow> emits P (if c then m else n)"
  by simp

lemma emits_case_prod: "(\<And>a b. emits P (f a b)) \<Longrightarrow> emits P (case_prod f x)"
  by (cases x) simp

lemma emits_foreign_unit: "(\<And>r. P (Foreign c r)) \<Longrightarrow> emits P (foreign_unit c f)"
  by (simp add: emits_def js_monad split: prod.splits)
lemma emits_foreign_number: "(\<And>r. P (Foreign c r)) \<Longrightarrow> emits P (foreign_number c f)"
  by (simp add: emits_def js_monad split: prod.splits)
lemma emits_foreign_text: "(\<And>r. P (Foreign c r)) \<Longrightarrow> emits P (foreign_text c f)"
  by (simp add: emits_def js_monad split: prod.splits)
lemma emits_console_error: "P (ConsoleError label ptr len e) \<Longrightarrow> emits P (console_error label ptr len e)"
  by (simp add: emits_def js_monad)

lemmas emits_intros = emits_ret emits_throw emits_pure_js emits_assign emits_read_locals
  emits_bind emits_try_finally emits_try_catch emits_lift emits_if emits_case_prod
  emits_foreign_unit emits_foreign_number emits_foreign_text emits_console_error

lemma emits_readBufferSlice: "(\<And>r. P (Foreign (ReadString ptr len) r)) \<Longrightarrow> (\<And>l e. P (ConsoleError l ptr len e)) \<Longrightarrow> emits P (readBufferSlice F ptr len)"
  unfolding readBufferSlice_def by (intro emits_intros) simp_all

lemma emits_stringToPtr: "(\<And>n r. P (Foreign (Alloc n) r)) \<Longrightarrow> (\<And>p r. P (Foreign (WriteString p str) r)) \<Longrightarrow> emits P (stringToPtr F str)"
  unfolding stringToPtr_def allocate_def Let_def by (intro emits_intros) simp_all

lemma execute_frame_dealloc_positive:
  "emits dealloc_positive (execute_frame F B a name params ctx)"
  unfolding execute_frame_def execute_body_def execute_async_path_def execute_sync_path_def
    release_params_def release_if_positive_def issue_host_call_def deallocate_def allocate_def
  by (intro emits_intros emits_readBufferSlice emits_stringToPtr) simp_all


section \<open>Exactly one host call per logical invocation\<close>

lemma bind_assoc: "bind (bind m f) g = bind m (\<lambda>x. bind (f x) g)"
  by (rule ext) (simp add: bind_def split: prod.splits sum.splits)

lemma execute_async_path_blocks:
  "execute_async_path F B =
     try_finally (bind (resume_or_call F) (\<lambda>_. read_staged_response F B)) (release_response F)"
  by (simp add: execute_async_path_def resume_or_call_def read_staged_response_def
      release_response_def bind_assoc)

lemma execute_body_blocks:
  "execute_body F B a name params ctx =
     bind (acquire_params F B name params ctx)
       (\<lambda>_. if a then execute_async_path F B else execute_sync_path F B)"
  by (simp add: execute_body_def acquire_params_def bind_assoc split_def)


lemma emits_filter: "emits (\<lambda>e. \<not> P e) m \<Longrightarrow> filter P (events_of (m s)) = []"
  by (auto simp: emits_def list_all_iff filter_empty_conv)

lemma quiet_acquire: "emits quiet (acquire_params F B name params ctx)"
  unfolding acquire_params_def
  by (intro emits_intros emits_stringToPtr) (simp_all add: quiet_def)

lemma quiet_read_staged: "emits quiet (read_staged_response F B)"
  unfolding read_staged_response_def
  by (intro emits_intros emits_readBufferSlice) (simp_all add: quiet_def)

lemma quiet_release_response: "emits quiet (release_response F)"
  unfolding release_response_def release_if_positive_def deallocate_def
  by (intro emits_intros) (simp_all add: quiet_def)

lemma quiet_release_params: "emits quiet (release_params F)"
  unfolding release_params_def release_if_positive_def deallocate_def
  by (intro emits_intros) (simp_all add: quiet_def)

lemma quiet_sync: "emits (\<lambda>e. \<not> is_stop_rewind e \<and> \<not> is_get_state e) (execute_sync_path F B)"
  unfolding execute_sync_path_def release_if_positive_def deallocate_def allocate_def issue_host_call_def
  by (intro emits_intros emits_readBufferSlice) simp_all

lemma events_resume_or_call:
  "events_of (resume_or_call F (l, h)) =
     (case asyncify_get_state F h of
        (Inl e, h') \<Rightarrow> [Foreign AsyncifyGetState (Threw e)]
      | (Inr st, h') \<Rightarrow>
          if st = 2
          then [Foreign AsyncifyGetState (Number st),
                Foreign AsyncifyStopRewind (reply_unit (fst (asyncify_stop_rewind F h')))]
          else [Foreign AsyncifyGetState (Number st),
                Foreign (HostCall (actionNamePtr l) (actionNameLen l) (paramsPtr l) (paramsLen l)
                   (contextPtr l) (contextLen l))
                  (reply_unit (fst (host_call F (actionNamePtr l) (actionNameLen l) (paramsPtr l)
                     (paramsLen l) (contextPtr l) (contextLen l) h')))])"
  by (simp add: resume_or_call_def issue_host_call_def lift_def read_locals_def js_monad
      split: prod.splits sum.splits)


lemma quiet_filters:
  assumes "emits quiet m"
  shows "filter is_host_call (events_of (m s)) = []"
    and "filter is_stop_rewind (events_of (m s)) = []"
    and "filter is_get_state (events_of (m s)) = []"
  using assms by (auto simp: emits_def list_all_iff filter_empty_conv quiet_def)

lemmas quiet_blocks =
  quiet_filters [OF quiet_acquire] quiet_filters [OF quiet_read_staged]
  quiet_filters [OF quiet_release_response] quiet_filters [OF quiet_release_params]

lemma events_execute:
  "events_of (execute F B a name params ctx h) =
     events_of (execute_frame F B a name params ctx (initial_locals, h))"
  by (simp add: execute_def js_monad split: prod.splits)

lemma events_execute_frame:
  "events_of (execute_frame F B a name params ctx s) =
     events_of (acquire_params F B name params ctx s) @
     (case outcome_of (acquire_params F B name params ctx s) of
        Inl e \<Rightarrow> []
      | Inr u \<Rightarrow> events_of ((if a then execute_async_path F B else execute_sync_path F B)
                 (state_of (acquire_params F B name params ctx s)))) @
     events_of (release_params F (state_of (execute_body F B a name params ctx s)))"
  by (simp add: execute_frame_def events_try_finally execute_body_blocks events_bind)

lemma async_path_summary:
  "filter is_get_state (events_of (execute_async_path F B (l, h))) =
     [Foreign AsyncifyGetState (reply_number (fst (asyncify_get_state F h)))]"
  "filter is_host_call (events_of (execute_async_path F B (l, h))) =
     (case fst (asyncify_get_state F h) of
        Inl e \<Rightarrow> []
      | Inr st \<Rightarrow> if st = 2 then [] else
          [Foreign (HostCall (actionNamePtr l) (actionNameLen l) (paramsPtr l) (paramsLen l)
                   (contextPtr l) (contextLen l))
                  (reply_unit (fst (host_call F (actionNamePtr l) (actionNameLen l) (paramsPtr l)
                     (paramsLen l) (contextPtr l) (contextLen l)
                     (snd (asyncify_get_state F h)))))])"
  "filter is_stop_rewind (events_of (execute_async_path F B (l, h))) =
     (case fst (asyncify_get_state F h) of
        Inl e \<Rightarrow> []
      | Inr st \<Rightarrow> if st = 2 then
          [Foreign AsyncifyStopRewind (reply_unit (fst (asyncify_stop_rewind F (snd (asyncify_get_state F h)))))]
          else [])"
  by (simp_all add: execute_async_path_blocks events_try_finally events_bind quiet_blocks
      events_resume_or_call split: prod.splits sum.splits)


lemma async_path_counts:
  "filter is_get_state (events_of (execute_async_path F B s)) =
     [Foreign AsyncifyGetState (reply_number (fst (asyncify_get_state F (snd s))))]"
  "host_calls (events_of (execute_async_path F B s)) =
     (case fst (asyncify_get_state F (snd s)) of Inl e \<Rightarrow> 0 | Inr st \<Rightarrow> if st = 2 then 0 else 1)"
  "stop_rewinds (events_of (execute_async_path F B s)) =
     (case fst (asyncify_get_state F (snd s)) of Inl e \<Rightarrow> 0 | Inr st \<Rightarrow> if st = 2 then 1 else 0)"
  by (cases s; simp add: async_path_summary host_calls_def stop_rewinds_def split: sum.splits)+

lemma execute_async_counts:
  fixes F :: "'h foreign" and B name params ctx h
  defines "A \<equiv> acquire_params F B name params ctx (initial_locals, h)"
  shows "filter is_get_state (events_of (execute F B True name params ctx h)) =
     (case outcome_of A of
        Inl e \<Rightarrow> []
      | Inr u \<Rightarrow> [Foreign AsyncifyGetState (reply_number (fst (asyncify_get_state F (snd (state_of A)))))])"
    and "host_calls (events_of (execute F B True name params ctx h)) =
     (case outcome_of A of
        Inl e \<Rightarrow> 0
      | Inr u \<Rightarrow> (case fst (asyncify_get_state F (snd (state_of A))) of
                   Inl e \<Rightarrow> 0 | Inr st \<Rightarrow> if st = 2 then 0 else 1))"
    and "stop_rewinds (events_of (execute F B True name params ctx h)) =
     (case outcome_of A of
        Inl e \<Rightarrow> 0
      | Inr u \<Rightarrow> (case fst (asyncify_get_state F (snd (state_of A))) of
                   Inl e \<Rightarrow> 0 | Inr st \<Rightarrow> if st = 2 then 1 else 0))"
  unfolding A_def
  using async_path_counts [of F B "state_of (acquire_params F B name params ctx (initial_locals, h))"]
  by (simp_all add: events_execute events_execute_frame host_calls_def stop_rewinds_def
      quiet_blocks split: sum.splits)

lemma host_calls_append: "host_calls (xs @ ys) = host_calls xs + host_calls ys"
  by (simp add: host_calls_def)



lemmas run_defs = execute_def execute_frame_def execute_body_def execute_async_path_def
  execute_sync_path_def release_params_def release_if_positive_def issue_host_call_def
  stringToPtr_def allocate_def deallocate_def readBufferSlice_def lift_def assign_def
  read_locals_def initial_locals_def js_monad mock_foreign_def mock_builtins_def mock_start_def
  nullish_to_null.simps

lemma js_echo: "js ''echo'' = [101, 99, 104, 111]" by (simp add: js_def)
lemma js_null: "js ''null'' = [110, 117, 108, 108]" by (simp add: js_def)
lemma js_ok: "js ''ok'' = [111, 107]" by (simp add: js_def)

lemma enc_echo: "TextEncoder_encode [101, 99, 104, 111] = [101, 99, 104, 111]"
  by (simp add: encoder_defs)
lemma enc_null: "TextEncoder_encode [110, 117, 108, 108] = [110, 117, 108, 108]"
  by (simp add: encoder_defs)
lemma enc_ok: "TextEncoder_encode [111, 107] = [111, 107]"
  by (simp add: encoder_defs)

lemma first_entry:
  "events_of (execute mock_foreign mock_builtins True (js ''echo'') Null Null (mock_start 16)) =
   [Foreign (Alloc 4) (Number 16), Foreign (WriteString 16 (js ''echo'')) Done,
    Foreign (Alloc 4) (Number 20), Foreign (WriteString 20 (js ''null'')) Done,
    Foreign (Alloc 4) (Number 24), Foreign (WriteString 24 (js ''null'')) Done,
    Foreign AsyncifyGetState (Number 0), Foreign (HostCall 16 4 20 4 24 4) Done,
    Foreign GetResponsePtr (Number 28), Foreign GetResponseLen (Number 0),
    Foreign ClearResponseBuffer Done, Foreign (Dealloc 28 0) Done,
    Foreign (Dealloc 16 4) Done, Foreign (Dealloc 20 4) Done, Foreign (Dealloc 24 4) Done]"
  by (simp add: run_defs js_echo js_null enc_echo enc_null)

lemma second_entry:
  "events_of (execute mock_foreign mock_builtins True (js ''echo'') Null Null resumed) =
   [Foreign (Alloc 4) (Number 16), Foreign (WriteString 16 (js ''echo'')) Done,
    Foreign (Alloc 4) (Number 20), Foreign (WriteString 20 (js ''null'')) Done,
    Foreign (Alloc 4) (Number 24), Foreign (WriteString 24 (js ''null'')) Done,
    Foreign AsyncifyGetState (Number 2), Foreign AsyncifyStopRewind Done,
    Foreign GetResponsePtr (Number 28), Foreign GetResponseLen (Number 2),
    Foreign (ReadString 28 2) (Text (js ''ok'')),
    Foreign ClearResponseBuffer Done, Foreign (Dealloc 28 2) Done,
    Foreign (Dealloc 16 4) Done, Foreign (Dealloc 20 4) Done, Foreign (Dealloc 24 4) Done]"
  by (simp add: run_defs resumed_def js_echo js_null js_ok enc_echo enc_null enc_ok)

text \<open>
  C1. In the Asyncify build, every entry of \<open>execute\<close> issues \<open>__host.call\<close> at most once.
  On an entry where the substrate reports state 2 (rewinding) when \<open>execute\<close> asks,
  \<open>asyncify_stop_rewind\<close> is called once and \<open>__host.call\<close> is not issued; on an entry where
  it reports any other state, \<open>__host.call\<close> is issued once and the rewind is not stopped.
  For a pair of entries to the same call, the first with a state other than 2 and the second
  rewinding, the two traces together show \<open>__host.call\<close> exactly once.
\<close>

theorem execute_async_host_call_once:
  fixes F :: "'h foreign" and B actionName params ctx
  defines "entry \<equiv> (\<lambda>h. events_of (execute F B True actionName params ctx h))"
  shows "host_calls (entry h) \<le> 1
    \<and> (Foreign AsyncifyGetState (Number 2) \<in> set (entry h) \<longrightarrow>
         host_calls (entry h) = 0 \<and> stop_rewinds (entry h) = 1)
    \<and> (state \<noteq> 2 \<and> Foreign AsyncifyGetState (Number state) \<in> set (entry h) \<longrightarrow>
         host_calls (entry h) = 1 \<and> stop_rewinds (entry h) = 0)
    \<and> (state \<noteq> 2 \<and> Foreign AsyncifyGetState (Number state) \<in> set (entry h) \<and>
         Foreign AsyncifyGetState (Number 2) \<in> set (entry h') \<longrightarrow>
         host_calls (entry h @ entry h') = 1)"
proof -
  define acquired where
    "acquired k = outcome_of (acquire_params F B actionName params ctx (initial_locals, k))" for k
  define reported where
    "reported k = fst (asyncify_get_state F
       (snd (state_of (acquire_params F B actionName params ctx (initial_locals, k)))))" for k
  have calls: "host_calls (entry k) =
      (case acquired k of Inl e \<Rightarrow> 0
       | Inr u \<Rightarrow> (case reported k of Inl e \<Rightarrow> 0 | Inr st \<Rightarrow> if st = 2 then 0 else 1))" for k
    unfolding entry_def acquired_def reported_def by (rule execute_async_counts)
  have stops: "stop_rewinds (entry k) =
      (case acquired k of Inl e \<Rightarrow> 0
       | Inr u \<Rightarrow> (case reported k of Inl e \<Rightarrow> 0 | Inr st \<Rightarrow> if st = 2 then 1 else 0))" for k
    unfolding entry_def acquired_def reported_def by (rule execute_async_counts)
  have asked: "filter is_get_state (entry k) =
      (case acquired k of Inl e \<Rightarrow> []
       | Inr u \<Rightarrow> [Foreign AsyncifyGetState (reply_number (reported k))])" for k
    unfolding entry_def acquired_def reported_def by (rule execute_async_counts)
  have seen: "acquired k = Inr () \<and> reported k = Inr st"
    if "Foreign AsyncifyGetState (Number st) \<in> set (entry k)" for st k
  proof -
    from that have "Foreign AsyncifyGetState (Number st) \<in> set (filter is_get_state (entry k))"
      by simp
    then show ?thesis
      unfolding asked by (cases "acquired k"; cases "reported k") auto
  qed
  have "host_calls (entry h) \<le> 1"
    by (simp add: calls split: sum.splits)
  moreover have "host_calls (entry h) = 0 \<and> stop_rewinds (entry h) = 1"
    if "Foreign AsyncifyGetState (Number 2) \<in> set (entry h)"
    using seen [OF that] by (simp add: calls stops)
  moreover have "host_calls (entry k) = 1 \<and> stop_rewinds (entry k) = 0"
    if "state \<noteq> 2" "Foreign AsyncifyGetState (Number state) \<in> set (entry k)" for k
    using seen [OF that(2)] that(1) by (simp add: calls stops)
  moreover have "host_calls (entry h @ entry h') = 1"
    if "state \<noteq> 2" "Foreign AsyncifyGetState (Number state) \<in> set (entry h)"
      "Foreign AsyncifyGetState (Number 2) \<in> set (entry h')"
    using seen [OF that(2)] seen [OF that(3)] that(1)
    by (simp add: host_calls_append calls)
  ultimately show ?thesis by blast
qed


text \<open>The pair of entries on the reference host.\<close>

theorem execute_async_host_call_once_witness:
  "(0::int) \<noteq> 2
   \<and> Foreign AsyncifyGetState (Number 0) \<in> set (events_of
         (execute mock_foreign mock_builtins True (js ''echo'') Null Null (mock_start 16)))
   \<and> Foreign AsyncifyGetState (Number 2) \<in> set (events_of
         (execute mock_foreign mock_builtins True (js ''echo'') Null Null resumed))
   \<and> host_calls (events_of
         (execute mock_foreign mock_builtins True (js ''echo'') Null Null (mock_start 16))) = 1
   \<and> host_calls (events_of
         (execute mock_foreign mock_builtins True (js ''echo'') Null Null resumed)) = 0
   \<and> stop_rewinds (events_of
         (execute mock_foreign mock_builtins True (js ''echo'') Null Null resumed)) = 1
   \<and> host_calls (events_of
         (execute mock_foreign mock_builtins True (js ''echo'') Null Null (mock_start 16)) @
       events_of
         (execute mock_foreign mock_builtins True (js ''echo'') Null Null resumed)) = 1"
  using execute_async_host_call_once [where F = mock_foreign and B = mock_builtins
      and actionName = "js ''echo''" and params = Null and ctx = Null
      and h = resumed and state = 0 and h' = resumed]
    execute_async_host_call_once [where F = mock_foreign and B = mock_builtins
      and actionName = "js ''echo''" and params = Null and ctx = Null
      and h = "mock_start 16" and state = 0 and h' = resumed]
  by (simp add: first_entry second_entry)

section \<open>Buffers and their release\<close>

lemma bind_ret: "bind (ret x) f = f x"
  by (rule ext) (simp add: bind_def ret_def split: prod.splits)

lemma execute_sync_path_blocks:
  "execute_sync_path F B =
     try_finally
       (bind (ask_result_size F) (\<lambda>len.
          if len = 0 then ret empty_result_response else fetch_result F B len))
       (release_result F)"
  unfolding execute_sync_path_def ask_result_size_def fetch_result_def release_result_def
    bind_assoc bind_ret
  by (rule refl)

lemma projections:
  "outcome_of (r, evs, s) = r" "events_of (r, evs, s) = evs" "state_of (r, evs, s) = s"
  by (simp_all add: js_monad)


lemma release_if_positive_run:
  "release_if_positive F ptr len (l, h) =
     (if 0 < ptr
      then (case wasm_dealloc F ptr len h of
              (r, h') \<Rightarrow> (r, [Foreign (Dealloc ptr len) (reply_unit r)], (l, h')))
      else (Inr (), [], (l, h)))"
  by (simp add: release_if_positive_def deallocate_def lift_def js_monad split: prod.splits)






lemma state_bind:
  "state_of (bind m f s) =
     (case outcome_of (m s) of Inl e \<Rightarrow> state_of (m s) | Inr x \<Rightarrow> state_of (f x (state_of (m s))))"
  by (simp add: js_monad split: prod.splits sum.splits)

lemma state_try_finally:
  "state_of (try_finally m fin s) = state_of (fin (state_of (m s)))"
  by (simp add: js_monad split: prod.splits sum.splits)

lemma outcome_bind:
  "outcome_of (bind m f s) =
     (case outcome_of (m s) of Inl e \<Rightarrow> Inl e | Inr x \<Rightarrow> outcome_of (f x (state_of (m s))))"
  by (simp add: js_monad split: prod.splits sum.splits)


lemma keeps_ret: "keeps Q (ret x)" by (simp add: keeps_def js_monad)

lemma keeps_throw: "keeps Q (throw e)" by (simp add: keeps_def js_monad)

lemma keeps_pure_js: "keeps Q (pure_js r)" by (simp add: keeps_def js_monad)

lemma keeps_read_locals: "keeps Q read_locals" by (simp add: keeps_def read_locals_def js_monad)

lemma keeps_lift: "keeps Q (lift m)"
  by (simp add: keeps_def lift_def js_monad split: prod.splits)

lemma keeps_assign: "(\<And>l. Q l \<Longrightarrow> Q (f l)) \<Longrightarrow> keeps Q (assign f)"
  by (simp add: keeps_def assign_def js_monad)

lemma keeps_bind: "keeps Q m \<Longrightarrow> (\<And>x. keeps Q (f x)) \<Longrightarrow> keeps Q (bind m f)"
  unfolding keeps_def
proof (intro allI impI)
  fix l h
  assume m: "\<forall>l h. Q l \<longrightarrow> Q (fst (state_of (m (l, h))))"
    and f: "\<And>x. \<forall>l h. Q l \<longrightarrow> Q (fst (state_of (f x (l, h))))" and q: "Q l"
  from m q have q1: "Q (fst (state_of (m (l, h))))" by blast
  show "Q (fst (state_of (bind m f (l, h))))"
  proof (cases "outcome_of (m (l, h))")
    case (Inl e)
    with q1 show ?thesis by (simp add: state_bind)
  next
    case (Inr x)
    obtain l1 h1 where s1: "state_of (m (l, h)) = (l1, h1)" by (cases "state_of (m (l, h))")
    with q1 f [of x] have "Q (fst (state_of (f x (l1, h1))))" by simp
    with Inr s1 show ?thesis by (simp add: state_bind)
  qed
qed

lemma keeps_try_finally: "keeps Q m \<Longrightarrow> keeps Q fin \<Longrightarrow> keeps Q (try_finally m fin)"
  unfolding keeps_def
proof (intro allI impI)
  fix l h
  assume m: "\<forall>l h. Q l \<longrightarrow> Q (fst (state_of (m (l, h))))"
    and f: "\<forall>l h. Q l \<longrightarrow> Q (fst (state_of (fin (l, h))))" and q: "Q l"
  from m q have q1: "Q (fst (state_of (m (l, h))))" by blast
  obtain l1 h1 where s1: "state_of (m (l, h)) = (l1, h1)" by (cases "state_of (m (l, h))")
  with q1 f have "Q (fst (state_of (fin (l1, h1))))" by simp
  with s1 show "Q (fst (state_of (try_finally m fin (l, h))))" by (simp add: state_try_finally)
qed

lemma keeps_if: "(c \<Longrightarrow> keeps Q m) \<Longrightarrow> (\<not> c \<Longrightarrow> keeps Q n) \<Longrightarrow> keeps Q (if c then m else n)"
  by simp

lemma keeps_case_prod: "(\<And>a b. keeps Q (f a b)) \<Longrightarrow> keeps Q (case_prod f x)"
  by (cases x) simp

lemmas keeps_intros = keeps_ret keeps_throw keeps_pure_js keeps_read_locals keeps_lift
  keeps_assign keeps_bind keeps_try_finally keeps_if keeps_case_prod

lemma keepsD: "keeps Q m \<Longrightarrow> Q (fst s) \<Longrightarrow> Q (fst (state_of (m s)))"
  by (cases s) (simp add: keeps_def)

lemma acquire_keeps_result:
  "keeps (\<lambda>l. resultPtr l = 0 \<and> resultLen l = 0 \<and> responsePtr l = 0 \<and> responseLen l = 0)
     (acquire_params F B name params ctx)"
  unfolding acquire_params_def by (intro keeps_intros) simp_all


lemma release_if_positive_frame: "fst (state_of (release_if_positive F ptr len s)) = fst s"
  by (cases s) (simp add: release_if_positive_run projections split: prod.splits)

lemma release_if_positive_returned:
  assumes "list_all dealloc_returned (events_of (release_if_positive F ptr len s))"
  shows "outcome_of (release_if_positive F ptr len s) = Inr () \<and>
         events_of (release_if_positive F ptr len s) = releases [(ptr, len)]"
proof -
  obtain l h where s: "s = (l, h)" by (cases s)
  obtain r h' where d: "wasm_dealloc F ptr len h = (r, h')" by (cases "wasm_dealloc F ptr len h")
  show ?thesis
    using assms
    by (cases r) (auto simp: s d release_if_positive_run projections releases_def split: if_splits)
qed

lemma release_params_frame: "fst (state_of (release_params F s)) = fst s"
proof -
  have "keeps (\<lambda>l. l = fst s) (release_params F)"
    unfolding release_params_def release_if_positive_def by (intro keeps_intros)
  then show ?thesis by (rule keepsD) simp
qed

lemma release_params_returned:
  assumes "list_all dealloc_returned (events_of (release_params F s))"
  shows "outcome_of (release_params F s) = Inr () \<and>
         events_of (release_params F s) = releases (param_handles (fst s))"
proof -
  obtain l h where s: "s = (l, h)" by (cases s)
  let ?r1 = "release_if_positive F (actionNamePtr l) (actionNameLen l) (l, h)"
  from assms have e1: "list_all dealloc_returned (events_of ?r1)"
    by (simp add: s release_params_def events_bind read_locals_def projections)
  note r1 = release_if_positive_returned [OF e1]
  obtain h1 where s1: "state_of ?r1 = (l, h1)"
    using release_if_positive_frame [of F "actionNamePtr l" "actionNameLen l" "(l, h)"]
    by (cases "state_of ?r1") simp
  let ?r2 = "release_if_positive F (paramsPtr l) (paramsLen l) (l, h1)"
  from assms have e2: "list_all dealloc_returned (events_of ?r2)"
    by (simp add: s release_params_def events_bind read_locals_def projections r1 s1)
  note r2 = release_if_positive_returned [OF e2]
  obtain h2 where s2: "state_of ?r2 = (l, h2)"
    using release_if_positive_frame [of F "paramsPtr l" "paramsLen l" "(l, h1)"]
    by (cases "state_of ?r2") simp
  let ?r3 = "release_if_positive F (contextPtr l) (contextLen l) (l, h2)"
  from assms have e3: "list_all dealloc_returned (events_of ?r3)"
    by (simp add: s release_params_def events_bind read_locals_def projections r1 s1 r2 s2)
  note r3 = release_if_positive_returned [OF e3]
  show ?thesis
    by (simp add: s release_params_def events_bind outcome_bind read_locals_def projections
        r1 s1 r2 s2 r3 releases_def param_handles_def)
qed


lemma initial_locals_zero:
  "resultPtr initial_locals = 0 \<and> resultLen initial_locals = 0 \<and>
   responsePtr initial_locals = 0 \<and> responseLen initial_locals = 0"
  by (simp add: initial_locals_def)




lemma async_keeps_result:
  "keeps (\<lambda>l. resultPtr l = 0 \<and> resultLen l = 0) (execute_async_path F B)"
  unfolding execute_async_path_def issue_host_call_def release_if_positive_def
  by (intro keeps_intros; simp)+

lemma sync_keeps_response:
  "keeps (\<lambda>l. responsePtr l = 0 \<and> responseLen l = 0) (execute_sync_path F B)"
  unfolding execute_sync_path_def issue_host_call_def release_if_positive_def
  by (intro keeps_intros; simp)+

lemma state_execute_body:
  "state_of (execute_body F B a name params ctx s) =
     (case outcome_of (acquire_params F B name params ctx s) of
        Inl e \<Rightarrow> state_of (acquire_params F B name params ctx s)
      | Inr u \<Rightarrow> state_of ((if a then execute_async_path F B else execute_sync_path F B)
                 (state_of (acquire_params F B name params ctx s))))"
  by (simp add: execute_body_blocks state_bind)

lemma final_locals_body:
  "final_locals F B a name params ctx h =
     fst (state_of (execute_body F B a name params ctx (initial_locals, h)))"
  by (simp add: final_locals_def execute_frame_def state_try_finally release_params_frame)


lemma no_dealloc_acquire: "emits (\<lambda>e. \<not> is_dealloc e) (acquire_params F B name params ctx)"
  unfolding acquire_params_def
  by (intro emits_intros emits_stringToPtr) simp_all

lemma no_dealloc_async_try:
  "emits (\<lambda>e. \<not> is_dealloc e) (bind (resume_or_call F) (\<lambda>_. read_staged_response F B))"
  unfolding resume_or_call_def read_staged_response_def issue_host_call_def
  by (intro emits_intros emits_readBufferSlice) simp_all

lemma no_dealloc_sync_try:
  "emits (\<lambda>e. \<not> is_dealloc e)
     (bind (ask_result_size F) (\<lambda>len.
        if len = 0 then ret empty_result_response else fetch_result F B len))"
  unfolding ask_result_size_def fetch_result_def issue_host_call_def allocate_def
  by (intro emits_intros emits_readBufferSlice) simp_all


lemma dealloc_calls_append: "dealloc_calls (xs @ ys) = dealloc_calls xs @ dealloc_calls ys"
  by (induction xs rule: dealloc_calls.induct) simp_all

lemma dealloc_calls_none: "list_all (\<lambda>e. \<not> is_dealloc e) evs \<Longrightarrow> dealloc_calls evs = []"
  by (induction evs rule: dealloc_calls.induct) simp_all

lemma emits_no_calls: "emits (\<lambda>e. \<not> is_dealloc e) m \<Longrightarrow> dealloc_calls (events_of (m s)) = []"
  by (rule dealloc_calls_none) (simp add: emits_def)

lemma dealloc_calls_releases: "dealloc_calls (releases handles) = positive handles"
  by (induction handles) (auto simp: releases_def positive_def)

lemma positive_simps:
  "positive [] = []"
  "positive ((ptr, len) # handles) = (if 0 < ptr then (ptr, len) # positive handles else positive handles)"
  "positive (xs @ ys) = positive xs @ positive ys"
  by (simp_all add: positive_def)

lemma release_if_positive_calls:
  "dealloc_calls (events_of (release_if_positive F ptr len s)) = positive [(ptr, len)]"
  by (cases s) (simp add: release_if_positive_run projections positive_simps split: prod.splits)

lemma release_params_calls_prefix:
  "prefix (dealloc_calls (events_of (release_params F s))) (positive (param_handles (fst s)))"
proof -
  obtain l h where s: "s = (l, h)" by (cases s)
  show ?thesis
    by (simp add: s release_params_def events_bind read_locals_def projections
        dealloc_calls_append release_if_positive_calls positive_simps param_handles_def
        split: sum.splits)
qed

lemma release_params_calls:
  assumes "list_all dealloc_returned (events_of (release_params F s))"
  shows "dealloc_calls (events_of (release_params F s)) = positive (param_handles (fst s))"
  using release_params_returned [OF assms] by (simp add: dealloc_calls_releases)

lemma async_path_calls:
  "dealloc_calls (events_of (execute_async_path F B s)) =
     positive [(responsePtr (fst (state_of (execute_async_path F B s))),
                responseLen (fst (state_of (execute_async_path F B s))))]"
proof -
  let ?T = "bind (resume_or_call F) (\<lambda>_. read_staged_response F B)"
  obtain l2 h2 where s2: "state_of (?T s) = (l2, h2)" by (cases "state_of (?T s)")
  have fin: "release_response F (l2, h2) = release_if_positive F (responsePtr l2) (responseLen l2) (l2, h2)"
    by (simp add: release_response_def read_locals_def bind_def split: prod.splits sum.splits)
  show ?thesis
    by (simp add: execute_async_path_blocks events_try_finally state_try_finally s2 fin
        dealloc_calls_append emits_no_calls [OF no_dealloc_async_try]
        release_if_positive_frame release_if_positive_calls)
qed

lemma sync_path_calls:
  "dealloc_calls (events_of (execute_sync_path F B s)) =
     positive [(resultPtr (fst (state_of (execute_sync_path F B s))),
                resultLen (fst (state_of (execute_sync_path F B s))))]"
proof -
  let ?T = "bind (ask_result_size F) (\<lambda>len.
        if len = 0 then ret empty_result_response else fetch_result F B len)"
  obtain l2 h2 where s2: "state_of (?T s) = (l2, h2)" by (cases "state_of (?T s)")
  have fin: "release_result F (l2, h2) = release_if_positive F (resultPtr l2) (resultLen l2) (l2, h2)"
    by (simp add: release_result_def read_locals_def bind_def split: prod.splits sum.splits)
  show ?thesis
    by (simp add: execute_sync_path_blocks events_try_finally state_try_finally s2 fin
        dealloc_calls_append emits_no_calls [OF no_dealloc_sync_try]
        release_if_positive_frame release_if_positive_calls)
qed

lemma body_calls:
  fixes F :: "'h foreign" and B a name params ctx h
  defines "body \<equiv> execute_body F B a name params ctx (initial_locals, h)"
  shows "dealloc_calls (events_of body) =
     positive [(responsePtr (fst (state_of body)), responseLen (fst (state_of body))),
               (resultPtr (fst (state_of body)), resultLen (fst (state_of body)))]"
proof -
  let ?A = "acquire_params F B name params ctx (initial_locals, h)"
  let ?path = "if a then execute_async_path F B else execute_sync_path F B"
  have zeros: "resultPtr (fst (state_of ?A)) = 0 \<and> resultLen (fst (state_of ?A)) = 0 \<and>
      responsePtr (fst (state_of ?A)) = 0 \<and> responseLen (fst (state_of ?A)) = 0"
    using keepsD [OF acquire_keeps_result, of "(initial_locals, h)" F B name params ctx]
    by (simp add: initial_locals_zero)
  have f1: "dealloc_calls (events_of ?A) = []"
    by (rule emits_no_calls [OF no_dealloc_acquire])
  have ev: "events_of body = events_of ?A @
      (case outcome_of ?A of Inl e \<Rightarrow> [] | Inr u \<Rightarrow> events_of (?path (state_of ?A)))"
    by (simp add: body_def execute_body_blocks events_bind)
  show ?thesis
  proof (cases "outcome_of ?A")
    case (Inl e)
    then have st: "state_of body = state_of ?A"
      by (simp add: body_def state_execute_body)
    show ?thesis
      by (simp add: ev Inl st f1 dealloc_calls_append zeros positive_simps)
  next
    case (Inr u)
    then have st: "state_of body = state_of (?path (state_of ?A))"
      by (simp add: body_def state_execute_body)
    show ?thesis
    proof (cases a)
      case True
      have z: "resultPtr (fst (state_of (execute_async_path F B (state_of ?A)))) = 0"
        using keepsD [OF async_keeps_result, of "state_of ?A" F B] zeros by simp
      show ?thesis
        by (simp add: ev Inr st True f1 dealloc_calls_append async_path_calls z positive_simps)
    next
      case False
      have z: "responsePtr (fst (state_of (execute_sync_path F B (state_of ?A)))) = 0"
        using keepsD [OF sync_keeps_response, of "state_of ?A" F B] zeros by simp
      show ?thesis
        by (simp add: ev Inr st False f1 dealloc_calls_append sync_path_calls z positive_simps)
    qed
  qed
qed

lemma events_execute_cleanup:
  "events_of (execute F B a name params ctx h) =
     events_of (execute_body F B a name params ctx (initial_locals, h)) @
     events_of (cleanup F B a name params ctx h)"
  by (simp add: events_execute execute_frame_def events_try_finally cleanup_def)



text \<open>
  C9, as the code has it. In \<open>execute\<close>, \<open>deallocate\<close> is never invoked with an offset that
  is not strictly positive, so a buffer recorded at offset 0 is never released. The buffers
  passed to \<open>deallocate\<close> are recorded buffers (staged response or result buffer, then the
  three parameter buffers) whose offset is strictly greater than zero, in order and each at
  most once; when no \<open>deallocate\<close> call of the parameter cleanup throws, they are all of
  them, each exactly once.
\<close>

theorem execute_deallocates_positive_only:
  fixes F :: "'h foreign" and B a actionName params ctx h
  defines "run \<equiv> execute F B a actionName params ctx h"
    and "l \<equiv> final_locals F B a actionName params ctx h"
    and "fin \<equiv> cleanup F B a actionName params ctx h"
  shows "list_all dealloc_positive (events_of run)
     \<and> prefix (dealloc_calls (events_of run)) (positive (recorded_buffers l))
     \<and> (list_all dealloc_returned (events_of fin) \<longrightarrow>
          dealloc_calls (events_of run) = positive (recorded_buffers l))"
proof -
  let ?body = "execute_body F B a actionName params ctx (initial_locals, h)"
  have pos: "list_all dealloc_positive (events_of run)"
    using execute_frame_dealloc_positive [of F B a actionName params ctx]
    by (simp add: run_def events_execute emits_def)
  have l: "l = fst (state_of ?body)"
    by (simp add: l_def final_locals_body)
  have calls: "dealloc_calls (events_of run) =
      positive [(responsePtr l, responseLen l), (resultPtr l, resultLen l)] @
      dealloc_calls (events_of fin)"
    by (simp add: run_def fin_def events_execute_cleanup dealloc_calls_append body_calls l)
  have rec: "positive (recorded_buffers l) =
      positive [(responsePtr l, responseLen l), (resultPtr l, resultLen l)] @
      positive (param_handles l)"
    by (simp add: recorded_buffers_def positive_simps)
  have pre: "prefix (dealloc_calls (events_of fin)) (positive (param_handles l))"
    using release_params_calls_prefix [of F "state_of ?body"]
    by (simp add: fin_def cleanup_def l)
  have eq: "dealloc_calls (events_of fin) = positive (param_handles l)"
    if "list_all dealloc_returned (events_of fin)"
    using release_params_calls [of F "state_of ?body"] that
    by (simp add: fin_def cleanup_def l)
  from pos pre eq show ?thesis
    unfolding calls rec by simp
qed


section \<open>Runs on the reference host\<close>



lemma final_locals_at_0:
  "final_locals mock_foreign mock_builtins False (js ''echo'') Null Null (answering 0) =
     \<lparr>actionNamePtr = 0, actionNameLen = 4, paramsPtr = 4, paramsLen = 4,
      contextPtr = 8, contextLen = 4, responsePtr = 0, responseLen = 0,
      resultPtr = 12, resultLen = 2\<rparr>"
  by (simp add: final_locals_def run_defs answering_def js_echo js_null js_ok enc_echo enc_null
      enc_ok)



lemma cleanup_at_0:
  "events_of (cleanup mock_foreign mock_builtins False (js ''echo'') Null Null (answering 0)) =
    [Foreign (Dealloc 4 4) Done, Foreign (Dealloc 8 4) Done]"
  by (simp add: cleanup_def run_defs answering_def js_echo js_null js_ok enc_echo enc_null enc_ok)

lemma refused_run:
  "execute refusing_foreign mock_builtins False (js ''echo'') Null Null (mock_start 16) =
   (Inl (Exn (js ''dealloc failed'')),
    [Foreign (Alloc 4) (Number 16), Foreign (WriteString 16 (js ''echo'')) Done,
     Foreign (Alloc 4) (Number 20), Foreign (WriteString 20 (js ''null'')) Done,
     Foreign (Alloc 4) (Number 24), Foreign (WriteString 24 (js ''null'')) Done,
     Foreign (HostCall 16 4 20 4 24 4) Done, Foreign GetExecutionResultSize (Number 0),
     Foreign (Dealloc 16 4) (Threw (Exn (js ''dealloc failed'')))],
    \<lparr>next_free = 28,
     cells = [(24, js ''null''), (20, js ''null''), (16, js ''echo'')],
     staged = [], staged_len = 0, suspend_state = 0\<rparr>)"
  by (simp add: run_defs refusing_foreign_def js_echo js_null enc_echo enc_null)

lemma refused_locals:
  "final_locals refusing_foreign mock_builtins False (js ''echo'') Null Null (mock_start 16) =
     \<lparr>actionNamePtr = 16, actionNameLen = 4, paramsPtr = 20, paramsLen = 4,
      contextPtr = 24, contextLen = 4, responsePtr = 0, responseLen = 0,
      resultPtr = 0, resultLen = 0\<rparr>"
  by (simp add: final_locals_def run_defs refusing_foreign_def js_echo js_null enc_echo enc_null)






text \<open>
  C9 as amended, on the reference host allocating from offset 0: five recorded buffers,
  three with a positive offset, three releases.
\<close>

theorem execute_deallocates_positive_only_witness:
  "list_all dealloc_positive (events_of
     (execute mock_foreign mock_builtins False (js ''echo'') Null Null (answering 0)))
   \<and> list_all dealloc_returned (events_of
     (cleanup mock_foreign mock_builtins False (js ''echo'') Null Null (answering 0)))
   \<and> recorded_buffers (final_locals mock_foreign mock_builtins False (js ''echo'') Null Null
       (answering 0)) = [(0, 0), (12, 2), (0, 4), (4, 4), (8, 4)]
   \<and> dealloc_calls (events_of
       (execute mock_foreign mock_builtins False (js ''echo'') Null Null (answering 0))) =
       [(12, 2), (4, 4), (8, 4)]"
proof -
  have returned: "list_all dealloc_returned (events_of
     (cleanup mock_foreign mock_builtins False (js ''echo'') Null Null (answering 0)))"
    by (simp add: cleanup_at_0)
  have recorded: "recorded_buffers (final_locals mock_foreign mock_builtins False (js ''echo'')
      Null Null (answering 0)) = [(0, 0), (12, 2), (0, 4), (4, 4), (8, 4)]"
    by (simp add: final_locals_at_0 recorded_buffers_def param_handles_def)
  from execute_deallocates_positive_only [where F = mock_foreign and B = mock_builtins
      and a = False and actionName = "js ''echo''" and params = Null and ctx = Null
      and h = "answering 0"] returned recorded
  show ?thesis
    by (simp add: positive_simps)
qed

text \<open>
  C9 as stated fails. On the reference host with a \<open>dealloc\<close> that throws, the frame
  records the three parameter buffers at the offsets 16, 20 and 24, all strictly positive,
  and only the first is passed to \<open>deallocate\<close>: that call throws and ends the cleanup.
\<close>

theorem positive_buffers_not_released_when_dealloc_throws:
  "recorded_buffers (final_locals refusing_foreign mock_builtins False (js ''echo'') Null Null
       (mock_start 16)) = [(0, 0), (0, 0), (16, 4), (20, 4), (24, 4)]
   \<and> dealloc_calls (events_of
       (execute refusing_foreign mock_builtins False (js ''echo'') Null Null (mock_start 16))) =
       [(16, 4)]"
  by (simp add: refused_locals refused_run projections recorded_buffers_def param_handles_def)

section \<open>The completion signal of the entry-point driver\<close>

lemma executeAsync_blocks:
  "executeAsync F B name params ctx = bind (marshal F B name params ctx) (cast F)"
  by (simp add: executeAsync_def marshal_def cast_def bind_assoc bind_ret split_def)

lemma no_cast_marshal: "emits (\<lambda>e. \<not> is_host_cast e) (marshal F B name params ctx)"
  unfolding marshal_def
  by (intro emits_intros emits_stringToPtr) simp_all

lemma cast_run:
  "cast F ((p1, n1), (p2, n2), (p3, n3)) s =
     (fst (host_cast F p1 n1 p2 n2 p3 n3 s),
      [Foreign (HostCast p1 n1 p2 n2 p3 n3) (reply_unit (fst (host_cast F p1 n1 p2 n2 p3 n3 s)))],
      snd (host_cast F p1 n1 p2 n2 p3 n3 s))"
  by (simp add: cast_def foreign_unit_def split: prod.splits)

lemma handle_run:
  "handle F B payload a script handler h =
     (case try_catch (handle_try F B payload a script handler) (handle_catch F B) (Undefined, h) of
        (r, evs, (c, h')) \<Rightarrow> (r, evs, h'))"
  by (simp add: handle_def)

lemma catch_without_context:
  "handle_catch F B e (Undefined, h) =
     (case report_without_context F B (message e) h of (r, evs, h') \<Rightarrow> (r, evs, (Undefined, h')))"
  by (simp add: handle_catch_def report_without_context_def read_locals_def lift_def bind_def
      ret_def split: prod.splits sum.splits)

text \<open>
  C10, as the code has it. Outside the script worker, when \<open>handle\<close> fails before a
  context was extracted (reading the input threw, the input was absent, or it did not
  parse), it ends with \<open>returnError(message, undefined)\<close>; in the second case a throw of
  that call is caught and reported once more, in the same way. With no context,
  \<open>returnError\<close> is \<open>executeAsync('__done__', response, context)\<close> with the synthesized
  context \<open>{logic: {execution_id: 'unknown'}}\<close>. That call first prepares the two JSON texts
  and the three buffers and then casts: the \<open>__done__\<close> signal is sent, with the handles
  of those buffers, when that preparation returns, and it is not sent when the preparation
  throws.
\<close>

theorem handle_failure_carries_fallback_context:
  fixes F :: "'h foreign" and B payload a script handler h msg s
  defines "input \<equiv> readInputFromHost B payload (getContext F) h"
    and "texts \<equiv> marshal F B (js ''__done__'') (error_response msg) fallback_context s"
  shows "(nullish ctx \<longrightarrow> returnError F B msg ctx =
           executeAsync F B (js ''__done__'') (error_response msg) fallback_context)
     \<and> execution_id_of fallback_context = Inr (Str (js ''unknown''))
     \<and> (outcome_of input = Inl e \<longrightarrow>
          handle F B payload a script handler h =
            after (events_of input) (report_without_context F B (message e) (state_of input)))
     \<and> (outcome_of input = Inr inputText \<and> no_input inputText \<longrightarrow>
          handle F B payload a script handler h =
            after (events_of input)
              (try_catch
                 (report_without_context F B (js ''no input payload provided by the host environment''))
                 (\<lambda>e. report_without_context F B (message e)) (state_of input)))
     \<and> (outcome_of input = Inr inputText \<and> \<not> no_input inputText \<and>
          JSON_parse B (input_text inputText) = Inl e \<longrightarrow>
          handle F B payload a script handler h =
            after (events_of input) (report_without_context F B (message e) (state_of input)))
     \<and> returnError F B msg Undefined s =
          (case outcome_of texts of
             Inl e \<Rightarrow> (Inl e, events_of texts, state_of texts)
           | Inr handles \<Rightarrow> after (events_of texts) (cast F handles (state_of texts)))
     \<and> filter is_host_cast (events_of texts) = []"
proof -
  obtain r evs h1 where input: "input = (r, evs, h1)" by (cases input)
  then have run: "readInputFromHost B payload (getContext F) h = (r, evs, h1)"
    by (simp add: input_def)
  have c1: "returnError F B msg ctx =
           executeAsync F B (js ''__done__'') (error_response msg) fallback_context"
    if "nullish ctx"
    using that by (simp add: returnError_def)
  have c2: "execution_id_of fallback_context = Inr (Str (js ''unknown''))"
    by (simp add: execution_id_of_def fallback_context_def)
  have c3: "handle F B payload a script handler h =
            after (events_of input) (report_without_context F B (message e) (state_of input))"
    if "outcome_of input = Inl e"
    using that
    by (simp add: handle_run handle_try_def input projections run try_catch_def bind_def lift_def
        catch_without_context after_def split: prod.splits)
  have c4: "handle F B payload a script handler h =
            after (events_of input)
              (try_catch
                 (report_without_context F B (js ''no input payload provided by the host environment''))
                 (\<lambda>e. report_without_context F B (message e)) (state_of input))"
    if "outcome_of input = Inr inputText" "no_input inputText"
    using that
    by (simp add: handle_run handle_try_def input projections run try_catch_def bind_def lift_def
        catch_without_context after_def report_without_context_def ret_def
        split: prod.splits sum.splits)
  have c5: "handle F B payload a script handler h =
            after (events_of input) (report_without_context F B (message e) (state_of input))"
    if "outcome_of input = Inr inputText" "\<not> no_input inputText"
      "JSON_parse B (input_text inputText) = Inl e"
    using that
    by (simp add: handle_run handle_try_def input projections run try_catch_def bind_def lift_def
        pure_js_def catch_without_context after_def split: prod.splits)
  have c6: "returnError F B msg Undefined s =
          (case outcome_of texts of
             Inl e \<Rightarrow> (Inl e, events_of texts, state_of texts)
           | Inr handles \<Rightarrow> after (events_of texts) (cast F handles (state_of texts)))"
    by (simp add: returnError_def executeAsync_blocks texts_def bind_def after_def projections
        split: prod.splits sum.splits)
  have c7: "filter is_host_cast (events_of texts) = []"
    unfolding texts_def by (rule emits_filter) (simp add: no_cast_marshal)
  from c1 c2 c3 c4 c5 c6 c7 show ?thesis by blast
qed

lemmas handle_defs = readInputFromHost_def getContext_def returnError_def executeAsync_def
  report_without_context_def marshal_def cast_def error_response_def fallback_context_def
  no_input.simps input_text.simps truthy.simps nullish.simps exhausted_foreign_def
  answering_def js_def encoder_defs

lemma absent_input:
  "readInputFromHost mock_builtins Undefined (getContext mock_foreign) (mock_start 16) =
     (Inr (Some []), [Foreign GetContextSize (Number 0)], mock_start 16)"
  by (simp add: handle_defs run_defs)

lemma absent_input_report:
  "try_catch
     (report_without_context mock_foreign mock_builtins
        (js ''no input payload provided by the host environment''))
     (\<lambda>e. report_without_context mock_foreign mock_builtins (message e)) (mock_start 16) =
   (Inr (Settled ()),
    [Foreign (Alloc 8) (Number 16), Foreign (WriteString 16 (js ''__done__'')) Done,
     Foreign (Alloc 87) (Number 24),
     Foreign (WriteString 24 (show_json (error_response
       (js ''no input payload provided by the host environment'')))) Done,
     Foreign (Alloc 36) (Number 111),
     Foreign (WriteString 111 (show_json fallback_context)) Done,
     Foreign (HostCast 16 8 24 87 111 36) Done],
    \<lparr>next_free = 147,
     cells = [(111, show_json fallback_context),
        (24, show_json (error_response
          (js ''no input payload provided by the host environment''))),
        (16, js ''__done__'')],
     staged = [], staged_len = 0, suspend_state = 0\<rparr>)"
  by (simp add: handle_defs run_defs)

lemma absent_input_texts:
  "marshal mock_foreign mock_builtins (js ''__done__'')
     (error_response (js ''no input payload provided by the host environment''))
     fallback_context (mock_start 16) =
   (Inr ((16, 8), (24, 87), (111, 36)),
    [Foreign (Alloc 8) (Number 16), Foreign (WriteString 16 (js ''__done__'')) Done,
     Foreign (Alloc 87) (Number 24),
     Foreign (WriteString 24 (show_json (error_response
       (js ''no input payload provided by the host environment'')))) Done,
     Foreign (Alloc 36) (Number 111),
     Foreign (WriteString 111 (show_json fallback_context)) Done],
    \<lparr>next_free = 147,
     cells = [(111, show_json fallback_context),
        (24, show_json (error_response
          (js ''no input payload provided by the host environment''))),
        (16, js ''__done__'')],
     staged = [], staged_len = 0, suspend_state = 0\<rparr>)"
  by (simp add: handle_defs run_defs)

lemma absent_input_cast:
  "cast mock_foreign ((16, 8), (24, 87), (111, 36)) h =
     (Inr (), [Foreign (HostCast 16 8 24 87 111 36) Done], h)"
  by (simp add: cast_def run_defs)

lemma unreadable_input:
  "readInputFromHost mock_builtins Undefined (getContext exhausted_foreign) (answering 16) =
     (Inl (Exn (js ''out of memory'')),
      [Foreign GetContextSize (Number 2),
       Foreign (Alloc 2) (Threw (Exn (js ''out of memory'')))],
      answering 16)"
  by (simp add: handle_defs run_defs)

lemma unreadable_input_report:
  "report_without_context exhausted_foreign mock_builtins (js ''out of memory'') (answering 16) =
     (Inl (Exn (js ''out of memory'')),
      [Foreign (Alloc 8) (Threw (Exn (js ''out of memory'')))],
      answering 16)"
  by (simp add: handle_defs run_defs)

lemma malformed_input:
  "readInputFromHost mock_builtins Undefined (getContext mock_foreign) (answering 16) =
     (Inr (Some (js ''ok'')),
      [Foreign GetContextSize (Number 2), Foreign (Alloc 2) (Number 16),
       Foreign (GetContext 16) Done, Foreign (ReadString 16 2) (Text (js ''ok'')),
       Foreign (Dealloc 16 2) Done],
      (answering 16)\<lparr>next_free := 18, cells := [(16, js ''ok'')]\<rparr>)"
  by (simp add: handle_defs run_defs)

lemma js_ok_nonempty: "js ''ok'' \<noteq> []"
  by (simp add: js_def)

lemma malformed_input_parse:
  "JSON_parse mock_builtins (js ''ok'') = Inl (Exn (js ''Unexpected token''))"
  by (simp add: mock_builtins_def js_def)

lemma malformed_input_report:
  "report_without_context mock_foreign mock_builtins (js ''Unexpected token'')
     ((answering 16)\<lparr>next_free := 18, cells := [(16, js ''ok'')]\<rparr>) =
   (Inr (Settled ()),
    [Foreign (Alloc 8) (Number 18), Foreign (WriteString 18 (js ''__done__'')) Done,
     Foreign (Alloc 54) (Number 26),
     Foreign (WriteString 26 (show_json (error_response (js ''Unexpected token'')))) Done,
     Foreign (Alloc 36) (Number 80),
     Foreign (WriteString 80 (show_json fallback_context)) Done,
     Foreign (HostCast 18 8 26 54 80 36) Done],
    \<lparr>next_free = 116,
     cells = [(80, show_json fallback_context),
        (26, show_json (error_response (js ''Unexpected token''))),
        (18, js ''__done__''), (16, js ''ok'')],
     staged = js ''ok'', staged_len = 2, suspend_state = 0\<rparr>)"
  by (simp add: handle_defs run_defs)

text \<open>
  C10 as amended, on the reference hosts: an input that cannot be read (no room in the
  arena), an absent input, and an input that is not JSON.
\<close>

theorem handle_failure_carries_fallback_context_witness:
  "nullish Undefined
   \<and> returnError mock_foreign mock_builtins
        (js ''no input payload provided by the host environment'') Undefined =
       executeAsync mock_foreign mock_builtins (js ''__done__'')
         (error_response (js ''no input payload provided by the host environment''))
         fallback_context
   \<and> execution_id_of fallback_context = Inr (Str (js ''unknown''))
   \<and> outcome_of (readInputFromHost mock_builtins Undefined (getContext exhausted_foreign)
        (answering 16)) = Inl (Exn (js ''out of memory''))
   \<and> handle exhausted_foreign mock_builtins Undefined False None null_handler (answering 16) =
       (Inl (Exn (js ''out of memory'')),
        [Foreign GetContextSize (Number 2),
         Foreign (Alloc 2) (Threw (Exn (js ''out of memory''))),
         Foreign (Alloc 8) (Threw (Exn (js ''out of memory'')))],
        answering 16)
   \<and> outcome_of (readInputFromHost mock_builtins Undefined (getContext mock_foreign)
        (mock_start 16)) = Inr (Some [])
   \<and> no_input (Some [])
   \<and> events_of (handle mock_foreign mock_builtins Undefined False None null_handler
        (mock_start 16)) =
       [Foreign GetContextSize (Number 0),
        Foreign (Alloc 8) (Number 16), Foreign (WriteString 16 (js ''__done__'')) Done,
        Foreign (Alloc 87) (Number 24),
        Foreign (WriteString 24 (show_json (error_response
          (js ''no input payload provided by the host environment'')))) Done,
        Foreign (Alloc 36) (Number 111),
        Foreign (WriteString 111 (show_json fallback_context)) Done,
        Foreign (HostCast 16 8 24 87 111 36) Done]
   \<and> outcome_of (readInputFromHost mock_builtins Undefined (getContext mock_foreign)
        (answering 16)) = Inr (Some (js ''ok''))
   \<and> \<not> no_input (Some (js ''ok''))
   \<and> JSON_parse mock_builtins (input_text (Some (js ''ok''))) =
        Inl (Exn (js ''Unexpected token''))
   \<and> events_of (handle mock_foreign mock_builtins Undefined False None null_handler
        (answering 16)) =
       [Foreign GetContextSize (Number 2), Foreign (Alloc 2) (Number 16),
        Foreign (GetContext 16) Done, Foreign (ReadString 16 2) (Text (js ''ok'')),
        Foreign (Dealloc 16 2) Done,
        Foreign (Alloc 8) (Number 18), Foreign (WriteString 18 (js ''__done__'')) Done,
        Foreign (Alloc 54) (Number 26),
        Foreign (WriteString 26 (show_json (error_response (js ''Unexpected token'')))) Done,
        Foreign (Alloc 36) (Number 80),
        Foreign (WriteString 80 (show_json fallback_context)) Done,
        Foreign (HostCast 18 8 26 54 80 36) Done]
   \<and> outcome_of (marshal mock_foreign mock_builtins (js ''__done__'')
        (error_response (js ''no input payload provided by the host environment''))
        fallback_context (mock_start 16)) = Inr ((16, 8), (24, 87), (111, 36))
   \<and> events_of (returnError mock_foreign mock_builtins
        (js ''no input payload provided by the host environment'') Undefined (mock_start 16)) =
       [Foreign (Alloc 8) (Number 16), Foreign (WriteString 16 (js ''__done__'')) Done,
        Foreign (Alloc 87) (Number 24),
        Foreign (WriteString 24 (show_json (error_response
          (js ''no input payload provided by the host environment'')))) Done,
        Foreign (Alloc 36) (Number 111),
        Foreign (WriteString 111 (show_json fallback_context)) Done,
        Foreign (HostCast 16 8 24 87 111 36) Done]"
proof -
  note unreadable = handle_failure_carries_fallback_context
    [where F = exhausted_foreign and B = mock_builtins and payload = Undefined and a = False
      and script = None and handler = null_handler and h = "answering 16"
      and e = "Exn (js ''out of memory'')"]
  note absent = handle_failure_carries_fallback_context
    [where F = mock_foreign and B = mock_builtins and payload = Undefined and a = False
      and script = None and handler = null_handler and h = "mock_start 16"
      and inputText = "Some []" and s = "mock_start 16" and ctx = Undefined
      and msg = "js ''no input payload provided by the host environment''"]
  note malformed = handle_failure_carries_fallback_context
    [where F = mock_foreign and B = mock_builtins and payload = Undefined and a = False
      and script = None and handler = null_handler and h = "answering 16"
      and inputText = "Some (js ''ok'')" and e = "Exn (js ''Unexpected token'')"]
  have c1: "handle exhausted_foreign mock_builtins Undefined False None null_handler (answering 16) =
       (Inl (Exn (js ''out of memory'')),
        [Foreign GetContextSize (Number 2),
         Foreign (Alloc 2) (Threw (Exn (js ''out of memory''))),
         Foreign (Alloc 8) (Threw (Exn (js ''out of memory'')))],
        answering 16)"
    using unreadable
    by (simp add: unreadable_input unreadable_input_report projections after_def)
  have c2: "events_of (handle mock_foreign mock_builtins Undefined False None null_handler
        (mock_start 16)) =
       [Foreign GetContextSize (Number 0),
        Foreign (Alloc 8) (Number 16), Foreign (WriteString 16 (js ''__done__'')) Done,
        Foreign (Alloc 87) (Number 24),
        Foreign (WriteString 24 (show_json (error_response
          (js ''no input payload provided by the host environment'')))) Done,
        Foreign (Alloc 36) (Number 111),
        Foreign (WriteString 111 (show_json fallback_context)) Done,
        Foreign (HostCast 16 8 24 87 111 36) Done]"
    using absent
    by (simp add: absent_input absent_input_report projections after_def)
  have c3: "events_of (handle mock_foreign mock_builtins Undefined False None null_handler
        (answering 16)) =
       [Foreign GetContextSize (Number 2), Foreign (Alloc 2) (Number 16),
        Foreign (GetContext 16) Done, Foreign (ReadString 16 2) (Text (js ''ok'')),
        Foreign (Dealloc 16 2) Done,
        Foreign (Alloc 8) (Number 18), Foreign (WriteString 18 (js ''__done__'')) Done,
        Foreign (Alloc 54) (Number 26),
        Foreign (WriteString 26 (show_json (error_response (js ''Unexpected token'')))) Done,
        Foreign (Alloc 36) (Number 80),
        Foreign (WriteString 80 (show_json fallback_context)) Done,
        Foreign (HostCast 18 8 26 54 80 36) Done]"
    using malformed
    by (simp add: malformed_input malformed_input_parse malformed_input_report projections
        after_def js_ok_nonempty)
  have c4: "events_of (returnError mock_foreign mock_builtins
        (js ''no input payload provided by the host environment'') Undefined (mock_start 16)) =
       [Foreign (Alloc 8) (Number 16), Foreign (WriteString 16 (js ''__done__'')) Done,
        Foreign (Alloc 87) (Number 24),
        Foreign (WriteString 24 (show_json (error_response
          (js ''no input payload provided by the host environment'')))) Done,
        Foreign (Alloc 36) (Number 111),
        Foreign (WriteString 111 (show_json fallback_context)) Done,
        Foreign (HostCast 16 8 24 87 111 36) Done]"
    using absent [THEN conjunct2, THEN conjunct2, THEN conjunct2, THEN conjunct2,
        THEN conjunct2, THEN conjunct1]
    by (simp add: absent_input_texts absent_input_cast projections after_def)
  have c5: "execution_id_of fallback_context = Inr (Str (js ''unknown''))"
    using absent [THEN conjunct2, THEN conjunct1] .
  have c6: "returnError mock_foreign mock_builtins
        (js ''no input payload provided by the host environment'') Undefined =
       executeAsync mock_foreign mock_builtins (js ''__done__'')
         (error_response (js ''no input payload provided by the host environment''))
         fallback_context"
    using absent [THEN conjunct1] by simp
  show ?thesis
    using c1 c2 c3 c4 c5 c6
    by (simp add: unreadable_input absent_input malformed_input malformed_input_parse
        absent_input_texts projections js_ok_nonempty)
qed

text \<open>
  C10 as stated fails. On the reference host whose \<open>alloc\<close> throws, the input is absent
  and no context is available, but no signal is sent: \<open>returnError\<close> throws while it
  prepares the first buffer, the \<open>catch\<close> block calls it again, it throws again, and the
  trace has no \<open>cast\<close>.
\<close>

theorem done_signal_not_sent_when_alloc_throws:
  "outcome_of (readInputFromHost mock_builtins Undefined (getContext exhausted_foreign)
      (mock_start 16)) = Inr (Some [])
   \<and> handle exhausted_foreign mock_builtins Undefined False None null_handler (mock_start 16) =
       (Inl (Exn (js ''out of memory'')),
        [Foreign GetContextSize (Number 0),
         Foreign (Alloc 8) (Threw (Exn (js ''out of memory''))),
         Foreign (Alloc 8) (Threw (Exn (js ''out of memory'')))],
        mock_start 16)"
  by (simp add: handle_def handle_try_def handle_catch_def handle_defs run_defs)

section \<open>The promise channel of the script worker\<close>

lemma main_handler_run:
  "main_handler import_app w =
     (case import_app (entered w) of
        (Inl e, evs, w') \<Rightarrow> (Inl e, evs, w'\<lparr>promise_channel := None\<rparr>)
      | (Inr Forever, evs, w') \<Rightarrow> (Inr Forever, evs, w')
      | (Inr (Settled u), evs, w') \<Rightarrow>
          (case channel_promise w' (fresh_channel w) of
             None \<Rightarrow>
               (Inr (Settled Undefined),
                evs @ [ConsoleWarn (js
                  ''SDK build warning: simple.Handle was not called by the user application.'')],
                w'\<lparr>promise_channel := None\<rparr>)
           | Some (Fulfilled v) \<Rightarrow> (Inr (Settled v), evs, w'\<lparr>promise_channel := None\<rparr>)
           | Some (Rejected e) \<Rightarrow> (Inl e, evs, w'\<lparr>promise_channel := None\<rparr>)
           | Some Pending \<Rightarrow> (Inr Forever, evs, w')))"
  by (simp add: main_handler_def entered_def new_channel_def install_channel_def console_warn_def
      js_monad
      split: prod.splits sum.splits awaited.splits option.splits settlement.splits)

text \<open>
  C5, as the code has it. The wrapper creates its channel and puts it in place with a plain
  assignment: with a channel \<open>c0\<close> already in place, the assignment returns, the new channel
  replaces the old one, and the wrapper goes on exactly as it does when none is in place.
  No error is raised.
\<close>

theorem wrapper_overwrites_existing_channel:
  "outcome_of (install_channel c (w\<lparr>promise_channel := Some c0\<rparr>)) = Inr ()
   \<and> promise_channel (state_of (install_channel c (w\<lparr>promise_channel := Some c0\<rparr>))) = Some c
   \<and> entered (w\<lparr>promise_channel := Some c0\<rparr>) = entered (w\<lparr>promise_channel := None\<rparr>)
   \<and> main_handler import_app (w\<lparr>promise_channel := Some c0\<rparr>) =
       main_handler import_app (w\<lparr>promise_channel := None\<rparr>)"
proof -
  have e: "entered (w\<lparr>promise_channel := Some c0\<rparr>) = entered (w\<lparr>promise_channel := None\<rparr>)"
    by (simp add: entered_def new_channel_def fresh_channel_def)
  have f: "fresh_channel (w\<lparr>promise_channel := Some c0\<rparr>) =
      fresh_channel (w\<lparr>promise_channel := None\<rparr>)"
    by (simp add: fresh_channel_def)
  have "main_handler import_app (w\<lparr>promise_channel := Some c0\<rparr>) =
       main_handler import_app (w\<lparr>promise_channel := None\<rparr>)"
    unfolding main_handler_run e f by (rule refl)
  with e show ?thesis
    by (simp add: install_channel_def projections)
qed

text \<open>
  C5 as stated fails. In a worker where a channel is in place, the wrapper runs an
  application to its end and returns: the channel was replaced by a new one (and removed at
  exit), and no error was raised.
\<close>

theorem occupied_slot_is_replaced_silently:
  "promise_channel occupied_worker = Some 1
   \<and> main_handler app_without_handle occupied_worker =
       (Inr (Settled Undefined),
        [ConsoleWarn (js
           ''SDK build warning: simple.Handle was not called by the user application.'')],
        \<lparr>promise_channel = None, channels = [(2, None), (1, None)],
         initial_payload = Undefined\<rparr>)"
  by (simp add: main_handler_run app_without_handle_def occupied_worker_def entered_def
      new_channel_def fresh_channel_def channel_promise_def ret_def)

text \<open>
  C6, as the code has it. When the application has run to its end and the wrapper's channel
  holds no promise, the wrapper logs a warning and returns \<open>undefined\<close>: it raises no error,
  and it does not hang. The outcome differs from that of a handler whose promise rejects
  (the wrapper throws the rejection) and from that of a missing channel (\<open>handle\<close> throws
  when it is about to place the promise).
\<close>

theorem wrapper_without_placed_promise:
  fixes import_app :: "(worker, unit awaited) js" and w :: worker
  defines "app \<equiv> import_app (entered w)"
  shows
   "(outcome_of app = Inr (Settled ()) \<and> channel_promise (state_of app) (fresh_channel w) = None
       \<longrightarrow> main_handler import_app w =
         (Inr (Settled Undefined),
          events_of app @ [ConsoleWarn (js
            ''SDK build warning: simple.Handle was not called by the user application.'')],
          (state_of app)\<lparr>promise_channel := None\<rparr>))
    \<and> (outcome_of app = Inr (Settled ()) \<and>
        channel_promise (state_of app) (fresh_channel w) = Some (Rejected e)
       \<longrightarrow> main_handler import_app w =
         (Inl e, events_of app, (state_of app)\<lparr>promise_channel := None\<rparr>))
    \<and> (promise_channel w' = None
       \<longrightarrow> place_result resultPromise w' =
         (Inl (Exn (js ''CRITICAL: Script worker context is missing the promise channel.'')),
          [], w'))"
proof -
  obtain r evs w1 where app: "import_app (entered w) = (r, evs, w1)"
    by (cases "import_app (entered w)")
  show ?thesis
    by (simp add: main_handler_run app_def app projections place_result_def throw_def
        split: sum.splits awaited.splits)
qed

lemma idle_app_run:
  "app_without_handle (entered idle_worker) =
     (Inr (Settled ()), [],
      \<lparr>promise_channel = Some 1, channels = [(1, None)], initial_payload = Undefined\<rparr>)"
  by (simp add: app_without_handle_def idle_worker_def entered_def new_channel_def
      fresh_channel_def ret_def)

lemma failing_app_run:
  "app_calling_handle mock_builtins failing_handler (entered requested_worker) =
     (Inr (Settled ()), [],
      \<lparr>promise_channel = Some 1,
       channels = [(1, Some (Rejected (Exn (js ''handler failed'')))), (1, None)],
       initial_payload = Obj [(js ''request'', Obj [])]\<rparr>)"
  by (simp add: app_calling_handle_def handle_in_worker_def readInputFromHost_def
      place_result_def place_promise_def new_Request_def requested_worker_def entered_def
      new_channel_def fresh_channel_def failing_handler_def mock_builtins_def js_monad js_def)

lemma fresh_channels:
  "fresh_channel idle_worker = 1" "fresh_channel requested_worker = 1"
  by (simp_all add: fresh_channel_def idle_worker_def requested_worker_def)

text \<open>
  C6 as amended, in the script worker: an application that never calls \<open>handle\<close>, one whose
  handler's promise rejects, and \<open>handle\<close> placing a promise where no channel is.
\<close>

theorem wrapper_without_placed_promise_witness:
  "outcome_of (app_without_handle (entered idle_worker)) = Inr (Settled ())
   \<and> channel_promise (state_of (app_without_handle (entered idle_worker)))
        (fresh_channel idle_worker) = None
   \<and> main_handler app_without_handle idle_worker =
       (Inr (Settled Undefined),
        [ConsoleWarn (js
           ''SDK build warning: simple.Handle was not called by the user application.'')],
        \<lparr>promise_channel = None, channels = [(1, None)], initial_payload = Undefined\<rparr>)
   \<and> outcome_of (app_calling_handle mock_builtins failing_handler (entered requested_worker)) =
        Inr (Settled ())
   \<and> channel_promise
        (state_of (app_calling_handle mock_builtins failing_handler (entered requested_worker)))
        (fresh_channel requested_worker) = Some (Rejected (Exn (js ''handler failed'')))
   \<and> main_handler (app_calling_handle mock_builtins failing_handler) requested_worker =
       (Inl (Exn (js ''handler failed'')), [],
        \<lparr>promise_channel = None,
         channels = [(1, Some (Rejected (Exn (js ''handler failed'')))), (1, None)],
         initial_payload = Obj [(js ''request'', Obj [])]\<rparr>)
   \<and> promise_channel idle_worker = None
   \<and> place_result (Fulfilled Null) idle_worker =
       (Inl (Exn (js ''CRITICAL: Script worker context is missing the promise channel.'')),
        [], idle_worker)"
proof -
  have c1: "main_handler app_without_handle idle_worker =
       (Inr (Settled Undefined),
        [ConsoleWarn (js
           ''SDK build warning: simple.Handle was not called by the user application.'')],
        \<lparr>promise_channel = None, channels = [(1, None)], initial_payload = Undefined\<rparr>)"
    using wrapper_without_placed_promise [where import_app = app_without_handle
        and w = idle_worker, THEN conjunct1]
    by (simp add: idle_app_run fresh_channels projections channel_promise_def)
  have c2: "main_handler (app_calling_handle mock_builtins failing_handler) requested_worker =
       (Inl (Exn (js ''handler failed'')), [],
        \<lparr>promise_channel = None,
         channels = [(1, Some (Rejected (Exn (js ''handler failed'')))), (1, None)],
         initial_payload = Obj [(js ''request'', Obj [])]\<rparr>)"
    using wrapper_without_placed_promise
      [where import_app = "app_calling_handle mock_builtins failing_handler"
        and w = requested_worker and e = "Exn (js ''handler failed'')",
        THEN conjunct2, THEN conjunct1]
    by (simp add: failing_app_run fresh_channels projections channel_promise_def)
  have c3: "place_result (Fulfilled Null) idle_worker =
       (Inl (Exn (js ''CRITICAL: Script worker context is missing the promise channel.'')),
        [], idle_worker)"
    using wrapper_without_placed_promise [where w' = idle_worker
        and resultPromise = "Fulfilled Null", THEN conjunct2, THEN conjunct2]
    by (simp add: idle_worker_def)
  have c4: "promise_channel idle_worker = None"
    by (simp add: idle_worker_def)
  show ?thesis
    using c1 c2 c3 c4
    by (simp add: idle_app_run failing_app_run fresh_channels projections channel_promise_def)
qed

text \<open>
  C6 as stated fails. An application that never calls \<open>handle\<close> gets no error: the wrapper
  logs a warning and returns \<open>undefined\<close>.
\<close>

theorem missing_handle_call_raises_no_error:
  "main_handler app_without_handle idle_worker =
     (Inr (Settled Undefined),
      [ConsoleWarn (js
         ''SDK build warning: simple.Handle was not called by the user application.'')],
      \<lparr>promise_channel = None, channels = [(1, None)], initial_payload = Undefined\<rparr>)"
  by (simp add: main_handler_run idle_app_run fresh_channels channel_promise_def)

end
